theory Spec2Isabelle
  imports Complex_Main
begin

section \<open>Python values\<close>

text \<open>
  A Python \<^verbatim>\<open>str\<close> is a sequence of Unicode code points; \<^verbatim>\<open>bytes\<close> is a
  sequence of octets, which is what \<^typ>\<open>string\<close> is.  ASCII literals of the source are
  written through \<open>str_of\<close>.
\<close>

type_synonym ustr = "nat list"

definition str_of :: "string \<Rightarrow> ustr" where
  "str_of s = map of_char s"

text \<open>The characters \<^verbatim>\<open>str.strip()\<close> removes (CPython's whitespace test).\<close>

definition py_isspace :: "nat \<Rightarrow> bool" where
  "py_isspace c \<longleftrightarrow>
     (9 \<le> c \<and> c \<le> 13) \<or> (28 \<le> c \<and> c \<le> 32) \<or> c = 133 \<or> c = 160 \<or> c = 5760 \<or>
     (8192 \<le> c \<and> c \<le> 8202) \<or> c = 8232 \<or> c = 8233 \<or> c = 8239 \<or> c = 8287 \<or>
     c = 12288"

definition strip :: "ustr \<Rightarrow> ustr" where
  "strip s = rev (dropWhile py_isspace (rev (dropWhile py_isspace s)))"

definition startswith :: "ustr \<Rightarrow> ustr \<Rightarrow> bool" where
  "startswith s p \<longleftrightarrow> take (length p) s = p"

text \<open>\<^verbatim>\<open>a in b\<close> on strings: \<open>a\<close> occurs in \<open>b\<close> as a contiguous substring.\<close>

fun py_in :: "ustr \<Rightarrow> ustr \<Rightarrow> bool" where
  "py_in a [] = (a = [])"
| "py_in a (y # ys) = (startswith (y # ys) a \<or> py_in a ys)"

text \<open>\<^verbatim>\<open>' '.join(tokens)\<close>\<close>

fun join_sp :: "ustr list \<Rightarrow> ustr" where
  "join_sp [] = []"
| "join_sp [t] = t"
| "join_sp (t # ts) = t @ [32] @ join_sp ts"

text \<open>\<^verbatim>\<open>list(dict.fromkeys(xs))\<close>: the first occurrence of each key, in order.\<close>

definition fromkeys :: "'a list \<Rightarrow> 'a list" where
  "fromkeys xs = foldl (\<lambda>acc x. if x \<in> set acc then acc else acc @ [x]) [] xs"

text \<open>
  A Python \<^verbatim>\<open>float\<close>: a finite double (given by its exact value), an infinity or a
  NaN.  Doubling a finite double is exact unless it overflows to an infinity.
\<close>

datatype pyfloat = Fin rat | PosInf | NegInf | NaN

definition float_max :: rat where
  "float_max = 2 ^ 1024 - 2 ^ 971"

fun times2 :: "pyfloat \<Rightarrow> pyfloat" where
  "times2 (Fin q) =
     (if float_max < 2 * q then PosInf else if 2 * q < - float_max then NegInf
      else Fin (2 * q))"
| "times2 PosInf = PosInf"
| "times2 NegInf = NegInf"
| "times2 NaN = NaN"

fun float_truthy :: "pyfloat \<Rightarrow> bool" where
  "float_truthy (Fin q) = (q \<noteq> 0)"
| "float_truthy _ = True"

text \<open>
  What \<^verbatim>\<open>json.loads\<close> returns, which is also every value a field can hold.  A
  \<^verbatim>\<open>dict\<close> is the list of its items, each key once.
\<close>

datatype json =
    JNull
  | JBool bool
  | JInt int
  | JFloat pyfloat
  | JStr ustr
  | JList "json list"
  | JDict "(ustr \<times> json) list"

fun truthy :: "json \<Rightarrow> bool" where
  "truthy JNull = False"
| "truthy (JBool b) = b"
| "truthy (JInt n) = (n \<noteq> 0)"
| "truthy (JFloat f) = float_truthy f"
| "truthy (JStr s) = (s \<noteq> [])"
| "truthy (JList xs) = (xs \<noteq> [])"
| "truthy (JDict kvs) = (kvs \<noteq> [])"

text \<open>\<^verbatim>\<open>d.get(k, default)\<close> and \<^verbatim>\<open>d.get(k)\<close> (Python's \<^verbatim>\<open>None\<close> is \<open>JNull\<close>).\<close>

definition dict_get_default :: "(ustr \<times> json) list \<Rightarrow> ustr \<Rightarrow> json \<Rightarrow> json" where
  "dict_get_default d k dflt = (case map_of d k of Some v \<Rightarrow> v | None \<Rightarrow> dflt)"

definition dict_get :: "(ustr \<times> json) list \<Rightarrow> ustr \<Rightarrow> json" where
  "dict_get d k = dict_get_default d k JNull"

datatype py_error =
  ValueError | TypeError | OverflowError | JSONDecodeError | RecursionError | XPathEvalError

text \<open>
  \<^verbatim>\<open>float(n)\<close> of an \<^verbatim>\<open>int\<close>: rounded to the nearest double, ties to even;
  \<^verbatim>\<open>OverflowError\<close> when the rounded value exceeds the largest double, that is from
  \<open>2^1024 - 2^970\<close> on.
\<close>

fun bit_length :: "nat \<Rightarrow> nat" where
  "bit_length n = (if n = 0 then 0 else Suc (bit_length (n div 2)))"

declare bit_length.simps [simp del]

definition round53 :: "nat \<Rightarrow> nat" where
  "round53 m =
     (if m < 2 ^ 53 then m
      else (let s = bit_length m - 53; q = m div 2 ^ s; r = m mod 2 ^ s; half = 2 ^ (s - 1)
            in (if half < r \<or> (r = half \<and> odd q) then q + 1 else q) * 2 ^ s))"

definition float_of_int :: "int \<Rightarrow> py_error + pyfloat" where
  "float_of_int n =
     (if 2 ^ 1024 - 2 ^ 970 \<le> \<bar>n\<bar> then Inl OverflowError
      else Inr (Fin (of_int (sgn n * int (round53 (nat \<bar>n\<bar>))))))"

section \<open>The parsed page and the environment\<close>

text \<open>
  lxml is outside the repository.  An element is what the plugin reads of it:
  \<^verbatim>\<open>text_content()\<close> (the text of the element and of everything inside it),
  \<^verbatim>\<open>tail\<close>, the \<^verbatim>\<open>text_content()\<close> of \<^verbatim>\<open>getparent()\<close>, and its direct text
  nodes, which are what \<^verbatim>\<open>/text()\<close> selects under it: none for a link that holds
  only an image or whose text sits in a child element, several for mixed content.  A
  document is what each XPath query of the plugin returns on it, in document order.
\<close>

record element =
  text_content :: ustr
  tail :: "ustr option"
  parent_text :: "ustr option"
  text_nodes :: "ustr list"

record document =
  ld_scripts :: "(py_error + json) list"
    \<comment> \<open>\<^verbatim>\<open>//script[@type="application/ld+json"]/text()\<close>, each as \<^verbatim>\<open>json.loads\<close>
        returns it; \<open>Inl\<close> the exception it raises: \<^verbatim>\<open>JSONDecodeError\<close>, or
        \<^verbatim>\<open>ValueError\<close> for an integer over the digit limit, or \<^verbatim>\<open>RecursionError\<close>\<close>
  h1_elems :: "element list"
    \<comment> \<open>\<^verbatim>\<open>//h1\<close>\<close>
  author_links :: "element list"
    \<comment> \<open>\<^verbatim>\<open>//a[contains(@href, "/author/")]\<close>\<close>
  series_links :: "element list"
    \<comment> \<open>\<^verbatim>\<open>//a[contains(@href, "/series/") or contains(@href, "/pubseries/")]\<close>\<close>
  genre_links :: "element list"
    \<comment> \<open>\<^verbatim>\<open>//a[contains(@href, "/genre/")]\<close>\<close>
  year_texts :: "ustr list"
    \<comment> \<open>the following-sibling texts of the publication-year label\<close>
  book_hrefs :: "ustr list"
    \<comment> \<open>\<^verbatim>\<open>//a[contains(@href, "/book/")]/@href\<close>\<close>
  a_by_href :: "ustr \<Rightarrow> py_error + element list"
    \<comment> \<open>\<^verbatim>\<open>//a[@href="{href}"]\<close> for the given href; \<open>Inl\<close> when the evaluation raises\<close>

text \<open>
  \<^verbatim>\<open>.../text()\<close> on a list of elements: their direct text nodes, in document order.
\<close>

definition xpath_text :: "element list \<Rightarrow> ustr list" where
  "xpath_text els = concat (map text_nodes els)"

definition h1_texts :: "document \<Rightarrow> ustr list" where
  "h1_texts doc = xpath_text (h1_elems doc)"

definition author_texts :: "document \<Rightarrow> ustr list" where
  "author_texts doc = xpath_text (author_links doc)"

definition genre_texts :: "document \<Rightarrow> ustr list" where
  "genre_texts doc = xpath_text (genre_links doc)"

typedecl datetime

record metadata =
  mi_title :: json
  mi_authors :: "json list"
  mi_identifiers :: "ustr \<rightharpoonup> json"
  mi_tags :: "json list option"
  mi_series :: "ustr option"
  mi_series_index :: "int option"
  mi_publisher :: "json option"
  mi_comments :: "json option"
  mi_rating :: "pyfloat option"
  mi_pubdate :: "datetime option"

text \<open>
  The Python runtime's Unicode tables and number parsers, the host application (calibre)
  and the network, as far as the plugin calls them.
\<close>

record env =
  lower :: "ustr \<Rightarrow> ustr"
    \<comment> \<open>\<^verbatim>\<open>str.lower\<close>\<close>
  digit_value :: "nat \<Rightarrow> nat option"
    \<comment> \<open>the value of a Unicode decimal digit (what \<^verbatim>\<open>\d\<close> matches), \<open>None\<close> for other characters\<close>
  max_str_digits :: "nat option"
    \<comment> \<open>the limit on the number of digits \<^verbatim>\<open>int(str)\<close> accepts, where the runtime has one\<close>
  float_of_str :: "ustr \<Rightarrow> pyfloat option"
    \<comment> \<open>\<^verbatim>\<open>float(str)\<close>, \<open>None\<close> for \<^verbatim>\<open>ValueError\<close>\<close>
  int_of_str :: "ustr \<Rightarrow> int option"
    \<comment> \<open>\<^verbatim>\<open>int(str)\<close>, \<open>None\<close> for \<^verbatim>\<open>ValueError\<close>\<close>
  open_novisit :: "json \<Rightarrow> string option"
    \<comment> \<open>\<^verbatim>\<open>browser.open_novisit(url).read()\<close>, \<open>None\<close> when it raises\<close>
  html_fromstring :: "string \<Rightarrow> document option"
    \<comment> \<open>\<^verbatim>\<open>lxml.html.fromstring\<close>, \<open>None\<close> when it raises\<close>
  get_title_tokens :: "ustr \<Rightarrow> ustr list"
  get_author_tokens :: "ustr list \<Rightarrow> ustr list"
    \<comment> \<open>with \<^verbatim>\<open>only_first_author=True\<close>\<close>
  url_quote :: "ustr \<Rightarrow> ustr"
    \<comment> \<open>\<^verbatim>\<open>urllib.parse.quote(s.encode('utf8'))\<close>\<close>
  clean_downloaded_metadata :: "metadata \<Rightarrow> metadata"
  parse_only_date :: "int \<Rightarrow> datetime option"
    \<comment> \<open>\<^verbatim>\<open>parse_only_date(str(year))\<close>, \<open>None\<close> when it raises\<close>
  abort_is_set :: "nat \<Rightarrow> bool"
    \<comment> \<open>the answer of the \<open>k\<close>-th call of \<^verbatim>\<open>abort.is_set()\<close>\<close>

datatype emitted = Record metadata | Cover string

record state =
  cover_cache :: "ustr \<rightharpoonup> json"
    \<comment> \<open>the host's cache of cover URLs, by \<^verbatim>\<open>livelib:<id>\<close>\<close>
  result_queue :: "emitted list"
  fetched :: "json list"
    \<comment> \<open>every URL handed to \<^verbatim>\<open>open_novisit\<close>, in order\<close>
  abort_checks :: nat

definition BASE_URL :: ustr where
  "BASE_URL = str_of ''https://www.livelib.ru''"

section \<open>Identifiers and URLs\<close>

definition is_digit :: "env \<Rightarrow> nat \<Rightarrow> bool" where
  "is_digit e c \<longleftrightarrow> digit_value e c \<noteq> None"

text \<open>
  \<^verbatim>\<open>re.search(lit + r'(\d+)', s)\<close> for a literal \<open>lit\<close>: group 1 of the leftmost
  match, the longest run of digits after the literal.
\<close>

definition match_here :: "env \<Rightarrow> ustr \<Rightarrow> ustr \<Rightarrow> ustr option" where
  "match_here e lit s =
     (if startswith s lit then
        (case takeWhile (is_digit e) (drop (length lit) s) of
           [] \<Rightarrow> None
         | d # ds \<Rightarrow> Some (d # ds))
      else None)"

fun re_search_digits :: "env \<Rightarrow> ustr \<Rightarrow> ustr \<Rightarrow> ustr option" where
  "re_search_digits e lit [] = match_here e lit []"
| "re_search_digits e lit (c # cs) =
     (case match_here e lit (c # cs) of
        Some g \<Rightarrow> Some g
      | None \<Rightarrow> re_search_digits e lit cs)"

text \<open>\<^verbatim>\<open>int(digits)\<close> on a run of decimal digits.\<close>

definition int_of_digits :: "env \<Rightarrow> ustr \<Rightarrow> py_error + int" where
  "int_of_digits e ds =
     (if (case max_str_digits e of Some m \<Rightarrow> m < length ds | None \<Rightarrow> False)
      then Inl ValueError
      else Inr (foldl (\<lambda>a c. 10 * a + int (case digit_value e c of Some v \<Rightarrow> v | None \<Rightarrow> 0))
                  0 ds))"

definition get_book_url :: "(ustr \<rightharpoonup> ustr) \<Rightarrow> ustr option" where
  "get_book_url identifiers =
     (case identifiers (str_of ''livelib'') of
        Some livelib_id \<Rightarrow>
          if livelib_id \<noteq> [] then Some (BASE_URL @ str_of ''/book/'' @ livelib_id) else None
      | None \<Rightarrow> None)"

definition id_from_url :: "env \<Rightarrow> ustr \<Rightarrow> ustr option" where
  "id_from_url e url = re_search_digits e (str_of ''/book/'') url"

definition cache_key :: "ustr \<Rightarrow> ustr" where
  "cache_key livelib_id = str_of ''livelib:'' @ livelib_id"

definition get_cached_cover_url :: "state \<Rightarrow> (ustr \<rightharpoonup> ustr) \<Rightarrow> json option" where
  "get_cached_cover_url st identifiers =
     (case identifiers (str_of ''livelib'') of
        Some livelib_id \<Rightarrow>
          if livelib_id \<noteq> [] then cover_cache st (cache_key livelib_id) else None
      | None \<Rightarrow> None)"

section \<open>The extractor: \<^verbatim>\<open>parse_book_page\<close>\<close>

text \<open>\<^verbatim>\<open>_fetch_page\<close>: any exception of the browser is logged and becomes \<open>None\<close>.\<close>

definition fetch_page :: "env \<Rightarrow> ustr \<Rightarrow> state \<Rightarrow> string option \<times> state" where
  "fetch_page e url st =
     (open_novisit e (JStr url), st\<lparr>fetched := fetched st @ [JStr url]\<rparr>)"

text \<open>
  \<^verbatim>\<open>_extract_json_ld\<close>: the first script that decodes to a dict of type Book.  Only
  \<^verbatim>\<open>JSONDecodeError\<close> is caught; any other exception of \<^verbatim>\<open>json.loads\<close> leaves
  the function.
\<close>

fun extract_json_ld_loop :: "(py_error + json) list \<Rightarrow> py_error + (ustr \<times> json) list option" where
  "extract_json_ld_loop [] = Inr None"
| "extract_json_ld_loop (script # scripts) =
     (case script of
        Inl JSONDecodeError \<Rightarrow> extract_json_ld_loop scripts
      | Inl err \<Rightarrow> Inl err
      | Inr (JDict data) \<Rightarrow>
          if dict_get data (str_of ''@type'') = JStr (str_of ''Book'') then Inr (Some data)
          else extract_json_ld_loop scripts
      | Inr _ \<Rightarrow> extract_json_ld_loop scripts)"

definition extract_json_ld :: "document \<Rightarrow> py_error + (ustr \<times> json) list option" where
  "extract_json_ld doc = extract_json_ld_loop (ld_scripts doc)"

text \<open>The local variables of \<^verbatim>\<open>parse_book_page\<close>, with their initial values.\<close>

record fields =
  f_title :: json
  f_authors :: "json list"
  f_isbn :: json
  f_publisher :: json
  f_genres :: "json list"
  f_series :: "ustr option"
  f_series_index :: "int option"
  f_description :: json
  f_rating :: "pyfloat option"
  f_cover_url :: json
  f_pub_year :: "int option"

definition initial_fields :: fields where
  "initial_fields =
     \<lparr>f_title = JStr [], f_authors = [], f_isbn = JNull, f_publisher = JNull, f_genres = [],
      f_series = None, f_series_index = None, f_description = JNull, f_rating = None,
      f_cover_url = JNull, f_pub_year = None\<rparr>"

text \<open>The author names of one author object.\<close>

definition author_name :: "json \<Rightarrow> json list" where
  "author_name a =
     (case a of
        JDict d \<Rightarrow> if truthy (dict_get d (str_of ''name'')) then [dict_get d (str_of ''name'')] else []
      | _ \<Rightarrow> [])"

definition ld_authors :: "json \<Rightarrow> json list" where
  "ld_authors author_data =
     (if truthy author_data then
        (case author_data of
           JDict d \<Rightarrow> author_name (JDict d)
         | JList as \<Rightarrow> concat (map author_name as)
         | _ \<Rightarrow> [])
      else [])"

definition ld_publisher :: "json \<Rightarrow> json" where
  "ld_publisher publisher_data =
     (case publisher_data of
        JDict d \<Rightarrow> if d \<noteq> [] then dict_get d (str_of ''name'') else JNull
      | _ \<Rightarrow> JNull)"

definition ld_genres :: "json \<Rightarrow> json list" where
  "ld_genres genre =
     (if truthy genre then
        (case genre of JStr s \<Rightarrow> [JStr s] | JList gs \<Rightarrow> gs | _ \<Rightarrow> [])
      else [])"

text \<open>\<^verbatim>\<open>float(x)\<close> on a decoded value.\<close>

fun py_float :: "env \<Rightarrow> json \<Rightarrow> py_error + pyfloat" where
  "py_float e JNull = Inl TypeError"
| "py_float e (JBool b) = Inr (Fin (if b then 1 else 0))"
| "py_float e (JInt n) = float_of_int n"
| "py_float e (JFloat f) = Inr f"
| "py_float e (JStr s) = (case float_of_str e s of Some f \<Rightarrow> Inr f | None \<Rightarrow> Inl ValueError)"
| "py_float e (JList xs) = Inl TypeError"
| "py_float e (JDict kvs) = Inl TypeError"

text \<open>The rating: \<^verbatim>\<open>ValueError\<close> and \<^verbatim>\<open>TypeError\<close> are caught, nothing else is.\<close>

definition ld_rating :: "env \<Rightarrow> json \<Rightarrow> py_error + pyfloat option" where
  "ld_rating e rating_data =
     (case rating_data of
        JDict d \<Rightarrow>
          if d \<noteq> [] then
            (case py_float e (dict_get_default d (str_of ''ratingValue'') (JInt 0)) of
               Inr rating \<Rightarrow> Inr (Some rating)
             | Inl ValueError \<Rightarrow> Inr None
             | Inl TypeError \<Rightarrow> Inr None
             | Inl err \<Rightarrow> Inl err)
          else Inr None
      | _ \<Rightarrow> Inr None)"

text \<open>Lines 117 to 166: the fields read from the JSON-LD block, when there is one.\<close>

definition json_ld_fields :: "env \<Rightarrow> (ustr \<times> json) list option \<Rightarrow> py_error + fields" where
  "json_ld_fields e json_ld =
     (case json_ld of
        None \<Rightarrow> Inr initial_fields
      | Some d \<Rightarrow>
          if d = [] then Inr initial_fields
          else
            (case ld_rating e (dict_get d (str_of ''aggregateRating'')) of
               Inl err \<Rightarrow> Inl err
             | Inr rating \<Rightarrow>
                 Inr (initial_fields
                   \<lparr>f_title := dict_get_default d (str_of ''name'') (JStr []),
                    f_authors := ld_authors (dict_get d (str_of ''author'')),
                    f_isbn := dict_get d (str_of ''isbn''),
                    f_publisher := ld_publisher (dict_get d (str_of ''publisher'')),
                    f_genres := ld_genres (dict_get d (str_of ''genre'')),
                    f_description := dict_get d (str_of ''description''),
                    f_rating := rating,
                    f_cover_url := dict_get d (str_of ''image'')\<rparr>)))"

text \<open>
  The loop of the two markup fallbacks: each text stripped, empty ones and ones already
  collected skipped.
\<close>

fun collect_texts :: "ustr list \<Rightarrow> json list \<Rightarrow> json list" where
  "collect_texts [] acc = acc"
| "collect_texts (t # ts) acc =
     (if strip t \<noteq> [] \<and> JStr (strip t) \<notin> set acc
      then collect_texts ts (acc @ [JStr (strip t)])
      else collect_texts ts acc)"

definition html_title :: "document \<Rightarrow> json \<Rightarrow> json" where
  "html_title doc title =
     (if \<not> truthy title then
        (case h1_texts doc of [] \<Rightarrow> title | h # _ \<Rightarrow> JStr (strip h))
      else title)"

definition html_authors :: "document \<Rightarrow> json list \<Rightarrow> json list" where
  "html_authors doc authors =
     (if authors = [] then collect_texts (take 3 (author_texts doc)) [] else authors)"

definition html_genres :: "document \<Rightarrow> json list \<Rightarrow> json list" where
  "html_genres doc genres =
     (if genres = [] then collect_texts (genre_texts doc) [] else genres)"

text \<open>
  The series loop: the first link whose stripped text is not empty gives the name, the
  index is searched in its tail, and the loop ends there.
\<close>

fun html_series :: "env \<Rightarrow> element list \<Rightarrow> py_error + (ustr option \<times> int option)" where
  "html_series e [] = Inr (None, None)"
| "html_series e (link # links) =
     (if strip (text_content link) \<noteq> [] then
        (case tail link of
           None \<Rightarrow> Inr (Some (strip (text_content link)), None)
         | Some t \<Rightarrow>
             if t = [] then Inr (Some (strip (text_content link)), None)
             else
               (case re_search_digits e (str_of ''#'') t of
                  None \<Rightarrow> Inr (Some (strip (text_content link)), None)
                | Some g \<Rightarrow>
                    (case int_of_digits e g of
                       Inl err \<Rightarrow> Inl err
                     | Inr n \<Rightarrow> Inr (Some (strip (text_content link)), Some n))))
      else html_series e links)"

definition html_pub_year :: "env \<Rightarrow> document \<Rightarrow> int option" where
  "html_pub_year e doc =
     (case year_texts doc of [] \<Rightarrow> None | y # _ \<Rightarrow> int_of_str e (strip y))"

text \<open>Lines 168 to 215: the markup fallbacks and the markup-only fields.\<close>

definition html_fields :: "env \<Rightarrow> document \<Rightarrow> fields \<Rightarrow> py_error + fields" where
  "html_fields e doc f =
     (case html_series e (series_links doc) of
        Inl err \<Rightarrow> Inl err
      | Inr (series, series_index) \<Rightarrow>
          Inr (f\<lparr>f_title := html_title doc (f_title f),
                 f_authors := html_authors doc (f_authors f),
                 f_series := series,
                 f_series_index := series_index,
                 f_genres := html_genres doc (f_genres f),
                 f_pub_year := html_pub_year e doc\<rparr>))"

definition resolve_fields :: "env \<Rightarrow> document \<Rightarrow> py_error + fields" where
  "resolve_fields e doc =
     (case extract_json_ld doc of
        Inl err \<Rightarrow> Inl err
      | Inr json_ld \<Rightarrow>
          (case json_ld_fields e json_ld of
             Inl err \<Rightarrow> Inl err
           | Inr f \<Rightarrow> html_fields e doc f))"

text \<open>Lines 224 to 256: the record, each optional field set only when it is truthy.\<close>

definition build_metadata :: "env \<Rightarrow> ustr option \<Rightarrow> fields \<Rightarrow> metadata" where
  "build_metadata e book_id f =
     \<lparr>mi_title = f_title f,
      mi_authors = f_authors f,
      mi_identifiers =
        (let ids = (case book_id of
                      Some b \<Rightarrow> if b \<noteq> [] then [str_of ''livelib'' \<mapsto> JStr b] else Map.empty
                    | None \<Rightarrow> Map.empty)
         in if truthy (f_isbn f) then ids(str_of ''isbn'' \<mapsto> f_isbn f) else ids),
      mi_tags = (if f_genres f \<noteq> [] then Some (f_genres f) else None),
      mi_series = (case f_series f of Some s \<Rightarrow> if s \<noteq> [] then Some s else None | None \<Rightarrow> None),
      mi_series_index =
        (case f_series f of
           Some s \<Rightarrow>
             if s \<noteq> [] then
               (case f_series_index f of
                  Some i \<Rightarrow> if i \<noteq> 0 then Some i else None
                | None \<Rightarrow> None)
             else None
         | None \<Rightarrow> None),
      mi_publisher = (if truthy (f_publisher f) then Some (f_publisher f) else None),
      mi_comments = (if truthy (f_description f) then Some (f_description f) else None),
      mi_rating =
        (case f_rating f of
           Some r \<Rightarrow> if float_truthy r then Some (times2 r) else None
         | None \<Rightarrow> None),
      mi_pubdate =
        (case f_pub_year f of
           Some y \<Rightarrow> if y \<noteq> 0 then parse_only_date e y else None
         | None \<Rightarrow> None)\<rparr>"

text \<open>
  The extraction core of \<^verbatim>\<open>parse_book_page\<close> (lines 101 to 263), on the parsed page:
  the record or \<open>None\<close>, and the cover cache updated; \<open>Inl\<close> is an exception that
  leaves the function.
\<close>

definition extract_core :: "env \<Rightarrow> document \<Rightarrow> ustr \<Rightarrow> state \<Rightarrow> py_error + (metadata option \<times> state)" where
  "extract_core e doc book_url st =
     (case resolve_fields e doc of
        Inl err \<Rightarrow> Inl err
      | Inr f \<Rightarrow>
          if \<not> truthy (f_title f) \<or> f_authors f = [] then Inr (None, st)
          else
            Inr (Some (build_metadata e (id_from_url e book_url) f),
                 (case id_from_url e book_url of
                    Some b \<Rightarrow>
                      if truthy (f_cover_url f) \<and> b \<noteq> []
                      then st\<lparr>cover_cache := (cover_cache st)(cache_key b \<mapsto> f_cover_url f)\<rparr>
                      else st
                  | None \<Rightarrow> st)))"

definition parse_book_page :: "env \<Rightarrow> ustr \<Rightarrow> state \<Rightarrow> py_error + (metadata option \<times> state)" where
  "parse_book_page e book_url st =
     (case fetch_page e book_url st of
        (raw_html, st1) \<Rightarrow>
          (case raw_html of
             None \<Rightarrow> Inr (None, st1)
           | Some raw \<Rightarrow>
               if raw = [] then Inr (None, st1)
               else
                 (case html_fromstring e raw of
                    None \<Rightarrow> Inr (None, st1)
                  | Some doc \<Rightarrow> extract_core e doc book_url st1)))"

section \<open>The matcher and \<^verbatim>\<open>identify\<close>\<close>

definition checked :: "state \<Rightarrow> state" where
  "checked st = st\<lparr>abort_checks := Suc (abort_checks st)\<rparr>"

definition title_match :: "ustr \<Rightarrow> ustr \<Rightarrow> bool" where
  "title_match title_lower link_text \<longleftrightarrow>
     py_in title_lower link_text \<or> py_in link_text title_lower"

datatype scan_result = Aborted | Scanned "ustr option"

text \<open>
  The candidate loop (lines 330 to 358).  \<open>Aborted\<close> is the \<^verbatim>\<open>return\<close> on the
  abort signal; \<open>Scanned best_match\<close> is the loop left by \<^verbatim>\<open>break\<close> or exhausted.
\<close>

fun scan :: "env \<Rightarrow> document \<Rightarrow> ustr \<Rightarrow> ustr \<Rightarrow> ustr list \<Rightarrow> state \<Rightarrow> py_error + (scan_result \<times> state)" where
  "scan e doc title_lower author_lower [] st = Inr (Scanned None, st)"
| "scan e doc title_lower author_lower (href # hrefs) st =
     (if abort_is_set e (abort_checks st) then Inr (Aborted, checked st)
      else
        (case a_by_href doc href of
           Inl err \<Rightarrow> Inl err
         | Inr [] \<Rightarrow> scan e doc title_lower author_lower hrefs (checked st)
         | Inr (el # _) \<Rightarrow>
             if title_match title_lower (lower e (strip (text_content el))) then
               (if author_lower \<noteq> [] then
                  (case parent_text el of
                     None \<Rightarrow> scan e doc title_lower author_lower hrefs (checked st)
                   | Some pt \<Rightarrow>
                       if py_in author_lower (lower e pt) then Inr (Scanned (Some href), checked st)
                       else scan e doc title_lower author_lower hrefs (checked st))
                else Inr (Scanned (Some href), checked st))
             else scan e doc title_lower author_lower hrefs (checked st)))"

definition absolute_url :: "ustr \<Rightarrow> ustr" where
  "absolute_url u = (if startswith u (str_of ''http'') then u else BASE_URL @ u)"

text \<open>
  Lines 316 to 368: the candidate the detail page is fetched for, as an absolute URL;
  \<open>None\<close> when \<^verbatim>\<open>identify\<close> returns without one.
\<close>

definition select_best_candidate :: "env \<Rightarrow> document \<Rightarrow> ustr \<Rightarrow> ustr \<Rightarrow> state \<Rightarrow> py_error + (ustr option \<times> state)" where
  "select_best_candidate e doc title_lower author_lower st =
     (case fromkeys (book_hrefs doc) of
        [] \<Rightarrow> Inr (None, st)
      | first # others \<Rightarrow>
          (case scan e doc title_lower author_lower (take 20 (first # others)) st of
             Inl err \<Rightarrow> Inl err
           | Inr (Aborted, st1) \<Rightarrow> Inr (None, st1)
           | Inr (Scanned best, st1) \<Rightarrow>
               (case (case best of None \<Rightarrow> first | Some h \<Rightarrow> if h = [] then first else h) of
                  [] \<Rightarrow> Inr (None, st1)
                | c # cs \<Rightarrow> Inr (Some (absolute_url (c # cs)), st1))))"

definition emit_record :: "env \<Rightarrow> metadata \<Rightarrow> state \<Rightarrow> state" where
  "emit_record e mi st =
     st\<lparr>result_queue := result_queue st @ [Record (clean_downloaded_metadata e mi)]\<rparr>"

definition livelib_of :: "(ustr \<rightharpoonup> ustr) option \<Rightarrow> ustr option" where
  "livelib_of identifiers =
     (case identifiers of None \<Rightarrow> None | Some ids \<Rightarrow> ids (str_of ''livelib''))"

definition identify_by_id :: "env \<Rightarrow> ustr \<Rightarrow> state \<Rightarrow> py_error + state" where
  "identify_by_id e livelib_id st =
     (case parse_book_page e (BASE_URL @ str_of ''/book/'' @ livelib_id) st of
        Inl err \<Rightarrow> Inl err
      | Inr (None, st1) \<Rightarrow> Inr st1
      | Inr (Some mi, st1) \<Rightarrow> Inr (emit_record e mi st1))"

definition author_tokens_of :: "env \<Rightarrow> ustr list option \<Rightarrow> ustr" where
  "author_tokens_of e authors =
     (case authors of
        None \<Rightarrow> []
      | Some as \<Rightarrow> if as = [] then [] else join_sp (get_author_tokens e as))"

definition search_url :: "env \<Rightarrow> ustr \<Rightarrow> ustr \<Rightarrow> ustr" where
  "search_url e title_tokens author_tokens =
     BASE_URL @ str_of ''/find/books/'' @
       url_quote e (if author_tokens \<noteq> [] then title_tokens @ [32] @ author_tokens
                    else title_tokens)"

definition identify_by_search :: "env \<Rightarrow> ustr \<Rightarrow> ustr list option \<Rightarrow> state \<Rightarrow> py_error + state" where
  "identify_by_search e title authors st =
     (case fetch_page e
             (search_url e (join_sp (get_title_tokens e title)) (author_tokens_of e authors)) st of
        (raw_html, st1) \<Rightarrow>
          (case raw_html of
             None \<Rightarrow> Inr st1
           | Some raw \<Rightarrow>
               if raw = [] then Inr st1
               else
                 (case html_fromstring e raw of
                    None \<Rightarrow> Inr st1
                  | Some doc \<Rightarrow>
                      (case select_best_candidate e doc
                              (lower e (join_sp (get_title_tokens e title)))
                              (if author_tokens_of e authors \<noteq> []
                               then lower e (author_tokens_of e authors) else []) st1 of
                         Inl err \<Rightarrow> Inl err
                       | Inr (None, st2) \<Rightarrow> Inr st2
                       | Inr (Some best_match, st2) \<Rightarrow>
                           (case parse_book_page e best_match st2 of
                              Inl err \<Rightarrow> Inl err
                            | Inr (None, st3) \<Rightarrow> Inr st3
                            | Inr (Some mi, st3) \<Rightarrow>
                                if abort_is_set e (abort_checks st3) then Inr (checked st3)
                                else Inr (emit_record e mi (checked st3)))))))"

text \<open>
  \<^verbatim>\<open>identify\<close>: the state it leaves (the result queue, the cover cache, the fetches
  made), or the exception that leaves it.
\<close>

definition identify :: "env \<Rightarrow> ustr option \<Rightarrow> ustr list option \<Rightarrow> (ustr \<rightharpoonup> ustr) option \<Rightarrow> state \<Rightarrow> py_error + state" where
  "identify e title authors identifiers st =
     (case livelib_of identifiers of
        Some (c # cs) \<Rightarrow> identify_by_id e (c # cs) st
      | _ \<Rightarrow>
          (case title of
             Some (c # cs) \<Rightarrow> identify_by_search e (c # cs) authors st
           | _ \<Rightarrow> Inr st))"

section \<open>\<^verbatim>\<open>download_cover\<close>\<close>

text \<open>
  Lines 390 to 401: the cover URL read again from the book page; whatever fails in
  between leaves the URL as it was.
\<close>

definition refetch_cover_url :: "env \<Rightarrow> ustr \<Rightarrow> json \<Rightarrow> state \<Rightarrow> json \<times> state" where
  "refetch_cover_url e livelib_id cover_url st =
     (case fetch_page e (BASE_URL @ str_of ''/book/'' @ livelib_id) st of
        (raw_html, st1) \<Rightarrow>
          (case raw_html of
             None \<Rightarrow> (cover_url, st1)
           | Some raw \<Rightarrow>
               if raw = [] then (cover_url, st1)
               else
                 (case html_fromstring e raw of
                    None \<Rightarrow> (cover_url, st1)
                  | Some doc \<Rightarrow>
                      (case extract_json_ld doc of
                         Inl err \<Rightarrow> (cover_url, st1)
                       | Inr None \<Rightarrow> (cover_url, st1)
                       | Inr (Some d) \<Rightarrow>
                           if d = [] then (cover_url, st1)
                           else (dict_get d (str_of ''image''), st1)))))"

text \<open>Lines 403 to 419: the image fetched and put on the queue.\<close>

definition fetch_cover :: "env \<Rightarrow> json \<Rightarrow> state \<Rightarrow> state" where
  "fetch_cover e cover_url st =
     (if \<not> truthy cover_url then st
      else
        (case open_novisit e cover_url of
           None \<Rightarrow> st\<lparr>fetched := fetched st @ [cover_url]\<rparr>
         | Some cover_data \<Rightarrow>
             if cover_data = [] then st\<lparr>fetched := fetched st @ [cover_url]\<rparr>
             else st\<lparr>fetched := fetched st @ [cover_url],
                     result_queue := result_queue st @ [Cover cover_data]\<rparr>))"

definition download_cover :: "env \<Rightarrow> ustr option \<Rightarrow> ustr list option \<Rightarrow> (ustr \<rightharpoonup> ustr) option \<Rightarrow> state \<Rightarrow> state" where
  "download_cover e title authors identifiers st =
     (case livelib_of identifiers of
        Some (c # cs) \<Rightarrow>
          (case cover_cache st (cache_key (c # cs)) of
             None \<Rightarrow>
               (case refetch_cover_url e (c # cs) JNull st of
                  (cover_url, st1) \<Rightarrow> fetch_cover e cover_url st1)
           | Some cached \<Rightarrow>
               if truthy cached then fetch_cover e cached st
               else
                 (case refetch_cover_url e (c # cs) cached st of
                    (cover_url, st1) \<Rightarrow> fetch_cover e cover_url st1))
      | _ \<Rightarrow> fetch_cover e JNull st)"

section \<open>Notions used in the properties\<close>

text \<open>The number a JSON number stands for.\<close>

fun numeric :: "json \<Rightarrow> rat option" where
  "numeric (JInt n) = Some (of_int n)"
| "numeric (JFloat (Fin q)) = Some q"
| "numeric _ = None"

text \<open>What the JSON-LD block gives for the three fields that have a markup fallback.\<close>

definition structured_title :: "document \<Rightarrow> json" where
  "structured_title doc =
     (case extract_json_ld doc of
        Inr (Some d) \<Rightarrow>
          if d = [] then JStr [] else dict_get_default d (str_of ''name'') (JStr [])
      | _ \<Rightarrow> JStr [])"

definition structured_authors :: "document \<Rightarrow> json list" where
  "structured_authors doc =
     (case extract_json_ld doc of
        Inr (Some d) \<Rightarrow> if d = [] then [] else ld_authors (dict_get d (str_of ''author''))
      | _ \<Rightarrow> [])"

definition structured_genres :: "document \<Rightarrow> json list" where
  "structured_genres doc =
     (case extract_json_ld doc of
        Inr (Some d) \<Rightarrow> if d = [] then [] else ld_genres (dict_get d (str_of ''genre''))
      | _ \<Rightarrow> [])"

text \<open>The JSON-LD block is absent or has no such key.\<close>

definition ld_omits :: "document \<Rightarrow> ustr \<Rightarrow> bool" where
  "ld_omits doc key =
     (case extract_json_ld doc of
        Inr None \<Rightarrow> True
      | Inr (Some d) \<Rightarrow> map_of d key = None
      | Inl err \<Rightarrow> False)"

text \<open>The series link the name is read from: the first whose stripped text is not empty.\<close>

definition series_link :: "document \<Rightarrow> element option" where
  "series_link doc = find (\<lambda>l. strip (text_content l) \<noteq> []) (series_links doc)"

text \<open>
  The tests of the candidate loop, by candidate: the lookup of its element raises; its
  link text passes the title test; it passes the title test and, when there is an author
  query, the author test on the text of its parent.
\<close>

definition raises :: "document \<Rightarrow> ustr \<Rightarrow> bool" where
  "raises doc href = (case a_by_href doc href of Inl err \<Rightarrow> True | Inr els \<Rightarrow> False)"

definition title_matches :: "env \<Rightarrow> document \<Rightarrow> ustr \<Rightarrow> ustr \<Rightarrow> bool" where
  "title_matches e doc title_lower href =
     (case a_by_href doc href of
        Inr (el # els) \<Rightarrow> title_match title_lower (lower e (strip (text_content el)))
      | _ \<Rightarrow> False)"

definition author_matches :: "env \<Rightarrow> document \<Rightarrow> ustr \<Rightarrow> ustr \<Rightarrow> bool" where
  "author_matches e doc author_lower href =
     (case a_by_href doc href of
        Inr (el # els) \<Rightarrow>
          (case parent_text el of None \<Rightarrow> False | Some pt \<Rightarrow> py_in author_lower (lower e pt))
      | _ \<Rightarrow> False)"

definition accepts :: "env \<Rightarrow> document \<Rightarrow> ustr \<Rightarrow> ustr \<Rightarrow> ustr \<Rightarrow> bool" where
  "accepts e doc title_lower author_lower href \<longleftrightarrow>
     title_matches e doc title_lower href \<and>
     (author_lower = [] \<or> author_matches e doc author_lower href)"

text \<open>The state after \<open>n\<close> more looks at the abort signal.\<close>

definition checks :: "nat \<Rightarrow> state \<Rightarrow> state" where
  "checks n st = st\<lparr>abort_checks := abort_checks st + n\<rparr>"

section \<open>Example data\<close>

text \<open>
  A runtime for the examples: ASCII digits and ASCII lower-casing (the examples hold no
  other digits or capitals), the digit limit of current CPython, no numeric strings, and
  a host whose tokenisers and clean-up change nothing.  The network, the HTML parser and
  the abort signal are given per example.
\<close>

definition ascii_digit :: "nat \<Rightarrow> nat option" where
  "ascii_digit c = (if 48 \<le> c \<and> c \<le> 57 then Some (c - 48) else None)"

definition ascii_lower :: "ustr \<Rightarrow> ustr" where
  "ascii_lower s = map (\<lambda>c. if 65 \<le> c \<and> c \<le> 90 then c + 32 else c) s"

definition example_env :: "(json \<Rightarrow> string option) \<Rightarrow> (string \<Rightarrow> document option) \<Rightarrow> (nat \<Rightarrow> bool) \<Rightarrow> env" where
  "example_env net parse ab =
     \<lparr>lower = ascii_lower, digit_value = ascii_digit, max_str_digits = Some 4300,
      float_of_str = (\<lambda>s. None), int_of_str = (\<lambda>s. None),
      open_novisit = net, html_fromstring = parse,
      get_title_tokens = (\<lambda>t. [t]), get_author_tokens = (\<lambda>as. take 1 as),
      url_quote = (\<lambda>s. s), clean_downloaded_metadata = (\<lambda>mi. mi),
      parse_only_date = (\<lambda>y. None), abort_is_set = ab\<rparr>"

definition offline_env :: env where
  "offline_env = example_env (\<lambda>u. None) (\<lambda>raw. None) (\<lambda>k. False)"

definition empty_state :: state where
  "empty_state = \<lparr>cover_cache = Map.empty, result_queue = [], fetched = [], abort_checks = 0\<rparr>"

definition blank_document :: document where
  "blank_document =
     \<lparr>ld_scripts = [], h1_elems = [], author_links = [], series_links = [], genre_links = [],
      year_texts = [], book_hrefs = [], a_by_href = (\<lambda>h. Inr [])\<rparr>"

text \<open>An element that holds the text \<open>t\<close> and nothing else.\<close>

definition text_link :: "ustr \<Rightarrow> element" where
  "text_link t = \<lparr>text_content = t, tail = None, parent_text = None, text_nodes = [t]\<rparr>"

text \<open>A detail page with a JSON-LD block only, and what the extractor makes of it.\<close>

definition dune_rating :: "(ustr \<times> json) list" where
  "dune_rating = [(str_of ''ratingValue'', JFloat (Fin (9 / 2)))]"

definition dune_ld :: "(ustr \<times> json) list" where
  "dune_ld =
     [(str_of ''@type'', JStr (str_of ''Book'')),
      (str_of ''name'', JStr (str_of ''Dune'')),
      (str_of ''author'', JDict [(str_of ''name'', JStr (str_of ''Frank Herbert''))]),
      (str_of ''aggregateRating'', JDict dune_rating),
      (str_of ''image'', JStr (str_of ''https://i.livelib.ru/dune.jpg''))]"

definition dune_page :: document where
  "dune_page = blank_document\<lparr>ld_scripts := [Inr (JDict dune_ld)]\<rparr>"

definition dune_url :: ustr where
  "dune_url = BASE_URL @ str_of ''/book/1000456789''"

definition dune_record :: metadata where
  "dune_record =
     \<lparr>mi_title = JStr (str_of ''Dune''), mi_authors = [JStr (str_of ''Frank Herbert'')],
      mi_identifiers = [str_of ''livelib'' \<mapsto> JStr (str_of ''1000456789'')],
      mi_tags = None, mi_series = None, mi_series_index = None, mi_publisher = None,
      mi_comments = None, mi_rating = Some (Fin 9), mi_pubdate = None\<rparr>"

text \<open>The same page with a rating of zero and no image.\<close>

definition unrated_rating :: "(ustr \<times> json) list" where
  "unrated_rating = [(str_of ''ratingValue'', JInt 0)]"

definition unrated_ld :: "(ustr \<times> json) list" where
  "unrated_ld =
     [(str_of ''@type'', JStr (str_of ''Book'')),
      (str_of ''name'', JStr (str_of ''Dune'')),
      (str_of ''author'', JDict [(str_of ''name'', JStr (str_of ''Frank Herbert''))]),
      (str_of ''aggregateRating'', JDict unrated_rating)]"

definition unrated_page :: document where
  "unrated_page = blank_document\<lparr>ld_scripts := [Inr (JDict unrated_ld)]\<rparr>"

definition unrated_record :: metadata where
  "unrated_record = dune_record\<lparr>mi_rating := None\<rparr>"

definition dune_state :: state where
  "dune_state = empty_state
     \<lparr>cover_cache := [str_of ''livelib:1000456789'' \<mapsto> JStr (str_of ''https://i.livelib.ru/dune.jpg'')]\<rparr>"

text \<open>
  A detail page without JSON-LD: the heading \<open>Voina i mir\<close>, three author links (one
  repeated, one from the sidebar) and genre links, in Cyrillic where the page has it.
\<close>

definition voina_i_mir :: ustr where
  "voina_i_mir = [1042, 1086, 1081, 1085, 1072, 32, 1080, 32, 1084, 1080, 1088]"

definition lev_tolstoy :: ustr where
  "lev_tolstoy = [1051, 1077, 1074, 32, 1058, 1086, 1083, 1089, 1090, 1086, 1081]"

definition a_ivanov :: ustr where
  "a_ivanov = [1040, 46, 32, 1048, 1074, 1072, 1085, 1086, 1074]"

definition tolstoy_page :: document where
  "tolstoy_page = blank_document
     \<lparr>h1_elems := [text_link ([10, 32] @ voina_i_mir @ [10])],
      author_links := [text_link lev_tolstoy, text_link lev_tolstoy, text_link a_ivanov],
      genre_links :=
        [text_link (str_of '' Classics ''), text_link (str_of ''Classics''),
         text_link (str_of ''Novel'')]\<rparr>"

definition tolstoy_fields :: fields where
  "tolstoy_fields = initial_fields
     \<lparr>f_title := JStr voina_i_mir,
      f_authors := [JStr lev_tolstoy, JStr a_ivanov],
      f_genres := [JStr (str_of ''Classics''), JStr (str_of ''Novel'')]\<rparr>"

text \<open>
  The page of \<open>dune_page\<close> with two series links, the first without text (an image
  link), the second followed by its number; and with one series link without a number.
\<close>

definition blank_link :: element where
  "blank_link = \<lparr>text_content = [], tail = None, parent_text = None, text_nodes = []\<rparr>"

definition numbered_link :: element where
  "numbered_link =
     \<lparr>text_content = str_of ''Dune Chronicles'', tail = Some (str_of '' #2 in the series''),
      parent_text = None, text_nodes = [str_of ''Dune Chronicles'']\<rparr>"

definition unnumbered_link :: element where
  "unnumbered_link =
     \<lparr>text_content = str_of ''Dune Chronicles'', tail = Some (str_of '' (series)''),
      parent_text = None, text_nodes = [str_of ''Dune Chronicles'']\<rparr>"

definition series_page :: document where
  "series_page = dune_page\<lparr>series_links := [blank_link, numbered_link]\<rparr>"

definition series_record :: metadata where
  "series_record = dune_record
     \<lparr>mi_series := Some (str_of ''Dune Chronicles''), mi_series_index := Some 2\<rparr>"

definition unnumbered_page :: document where
  "unnumbered_page = dune_page\<lparr>series_links := [unnumbered_link]\<rparr>"

definition unnumbered_record :: metadata where
  "unnumbered_record = dune_record\<lparr>mi_series := Some (str_of ''Dune Chronicles'')\<rparr>"

text \<open>
  A search page with two candidates of the same title; only the parent of the second
  names the author looked for.
\<close>

definition film_link :: element where
  "film_link =
     \<lparr>text_content = str_of ''Dune'', tail = None,
      parent_text = Some (str_of ''Dune David Lynch''), text_nodes = [str_of ''Dune'']\<rparr>"

definition novel_link :: element where
  "novel_link =
     \<lparr>text_content = str_of ''Dune'', tail = None,
      parent_text = Some (str_of ''Dune Frank Herbert''), text_nodes = [str_of ''Dune'']\<rparr>"

definition search_page :: document where
  "search_page = blank_document
     \<lparr>book_hrefs := [str_of ''/book/1'', str_of ''/book/2'', str_of ''/book/1''],
      a_by_href :=
        (\<lambda>h. if h = str_of ''/book/1'' then Inr [film_link, film_link]
             else if h = str_of ''/book/2'' then Inr [novel_link]
             else Inr [])\<rparr>"

text \<open>
  A detail page whose rating value is the integer \<open>10^400\<close>, and a network that serves
  it for every URL.
\<close>

definition overflow_page :: document where
  "overflow_page = blank_document
     \<lparr>ld_scripts :=
        [Inr (JDict
           [(str_of ''@type'', JStr (str_of ''Book'')),
            (str_of ''name'', JStr (str_of ''Dune'')),
            (str_of ''author'', JDict [(str_of ''name'', JStr (str_of ''Frank Herbert''))]),
            (str_of ''aggregateRating'', JDict [(str_of ''ratingValue'', JInt (10 ^ 400))])])]\<rparr>"

definition overflow_env :: env where
  "overflow_env =
     example_env (\<lambda>u. Some ''<html>'') (\<lambda>raw. Some overflow_page) (\<lambda>k. False)"

definition tolstoy_record :: metadata where
  "tolstoy_record =
     \<lparr>mi_title = JStr voina_i_mir, mi_authors = [JStr lev_tolstoy, JStr a_ivanov],
      mi_identifiers = [str_of ''livelib'' \<mapsto> JStr (str_of ''1000456789'')],
      mi_tags = Some [JStr (str_of ''Classics''), JStr (str_of ''Novel'')],
      mi_series = None, mi_series_index = None, mi_publisher = None, mi_comments = None,
      mi_rating = None, mi_pubdate = None\<rparr>"

text \<open>
  The same heading with four author links: a portrait (an image, no text of its own), the
  two authors, and a fourth link from the sidebar.
\<close>

definition p_petrov :: ustr where
  "p_petrov = str_of ''P. Petrov''"

definition sidebar_page :: document where
  "sidebar_page = blank_document
     \<lparr>h1_elems := [text_link voina_i_mir],
      author_links :=
        [blank_link, text_link lev_tolstoy, text_link a_ivanov, text_link p_petrov]\<rparr>"

definition sidebar_fields :: fields where
  "sidebar_fields = initial_fields
     \<lparr>f_title := JStr voina_i_mir,
      f_authors := [JStr lev_tolstoy, JStr a_ivanov, JStr p_petrov]\<rparr>"

text \<open>
  A page without JSON-LD whose heading holds its text in a child element
  (\<^verbatim>\<open><h1><span>Dune</span></h1>\<close>), with one author link.
\<close>

definition span_heading :: element where
  "span_heading =
     \<lparr>text_content = str_of ''Dune'', tail = None, parent_text = None, text_nodes = []\<rparr>"

definition span_heading_page :: document where
  "span_heading_page = blank_document
     \<lparr>h1_elems := [span_heading], author_links := [text_link (str_of ''Frank Herbert'')]\<rparr>"

definition span_heading_fields :: fields where
  "span_heading_fields = initial_fields\<lparr>f_authors := [JStr (str_of ''Frank Herbert'')]\<rparr>"

section \<open>Substring test and digit search\<close>

text \<open>
  \<open>py_in\<close> is the substring relation, and a digit search that succeeds returns a
  non-empty run of digits that follows the literal in the string.
\<close>

lemma startswith_iff: "startswith s p \<longleftrightarrow> (\<exists>post. s = p @ post)"
proof
  assume "startswith s p"
  then have "s = p @ drop (length p) s"
    by (metis append_take_drop_id startswith_def)
  then show "\<exists>post. s = p @ post" ..
next
  assume "\<exists>post. s = p @ post"
  then show "startswith s p" by (auto simp: startswith_def)
qed

lemma py_in_iff: "py_in a b \<longleftrightarrow> (\<exists>pre post. b = pre @ a @ post)"
proof (induction b)
  case Nil
  then show ?case by auto
next
  case (Cons y ys)
  show ?case
  proof
    assume "py_in a (y # ys)"
    then consider "startswith (y # ys) a" | "py_in a ys" by auto
    then show "\<exists>pre post. y # ys = pre @ a @ post"
    proof cases
      case 1
      then obtain post where "y # ys = a @ post" by (auto simp: startswith_iff)
      then have "y # ys = [] @ a @ post" by simp
      then show ?thesis by blast
    next
      case 2
      with Cons obtain pre post where "ys = pre @ a @ post" by blast
      then have "y # ys = (y # pre) @ a @ post" by simp
      then show ?thesis by blast
    qed
  next
    assume "\<exists>pre post. y # ys = pre @ a @ post"
    then obtain pre post where p: "y # ys = pre @ a @ post" by blast
    show "py_in a (y # ys)"
    proof (cases pre)
      case Nil
      with p have "startswith (y # ys) a" by (auto simp: startswith_iff)
      then show ?thesis by simp
    next
      case (Cons z zs)
      with p have "ys = zs @ a @ post" by simp
      with Cons.IH show ?thesis by auto
    qed
  qed
qed

lemma match_here_sound:
  assumes "match_here e lit s = Some g"
  shows "g \<noteq> [] \<and> (\<forall>c\<in>set g. is_digit e c) \<and> (\<exists>post. s = lit @ g @ post)"
proof -
  from assms have sw: "startswith s lit"
    and g: "g = takeWhile (is_digit e) (drop (length lit) s)" and ne: "g \<noteq> []"
    by (auto simp: match_here_def split: if_splits list.splits)
  from sw have "s = lit @ drop (length lit) s"
    by (metis append_take_drop_id startswith_def)
  then have "s = lit @ g @ dropWhile (is_digit e) (drop (length lit) s)"
    using g by simp
  moreover have "\<forall>c\<in>set g. is_digit e c"
    using g by (auto dest: set_takeWhileD)
  ultimately show ?thesis using ne by blast
qed

lemma re_search_digits_sound:
  "re_search_digits e lit s = Some g \<Longrightarrow>
     g \<noteq> [] \<and> (\<forall>c\<in>set g. is_digit e c) \<and> (\<exists>pre post. s = pre @ lit @ g @ post)"
proof (induction s)
  case Nil
  from match_here_sound [of e lit "[]" g] Nil show ?case by auto
next
  case (Cons c cs)
  show ?case
  proof (cases "match_here e lit (c # cs)")
    case (Some g')
    with Cons.prems have "g' = g" by simp
    with match_here_sound [OF Some] obtain post where "c # cs = [] @ lit @ g @ post"
      and "g \<noteq> []" and "\<forall>c\<in>set g. is_digit e c" by auto
    then show ?thesis by blast
  next
    case None
    with Cons.prems have "re_search_digits e lit cs = Some g" by simp
    from Cons.IH [OF this] obtain pre post where "cs = pre @ lit @ g @ post"
      and r: "g \<noteq> []" "\<forall>c\<in>set g. is_digit e c" by blast
    then have "c # cs = (c # pre) @ lit @ g @ post" by simp
    with r show ?thesis by blast
  qed
qed

section \<open>The identifier round trip\<close>

lemmas text_defs =
  h1_texts_def author_texts_def genre_texts_def xpath_text_def text_link_def

lemmas example_defs =
  offline_env_def example_env_def ascii_digit_def ascii_lower_def empty_state_def
  blank_document_def text_defs

lemmas string_defs = str_of_def BASE_URL_def startswith_def match_here_def is_digit_def

lemma takeWhile_all: "\<forall>c\<in>set i. P c \<Longrightarrow> takeWhile P i = i"
  by (induction i) auto

lemma case_nonempty:
  "i \<noteq> [] \<Longrightarrow> (case i of [] \<Rightarrow> None | d # ds \<Rightarrow> Some (d # ds)) = Some i"
  by (cases i) simp_all

lemma search_book_id:
  assumes "i \<noteq> []" and "\<forall>c\<in>set i. is_digit e c"
  shows "re_search_digits e (str_of ''/book/'') (BASE_URL @ str_of ''/book/'' @ i) = Some i"
proof -
  have tw: "takeWhile (is_digit e) i = i"
    using assms(2) by (rule takeWhile_all)
  show ?thesis
    by (simp add: BASE_URL_def str_of_def match_here_def startswith_def tw
        case_nonempty [OF assms(1)])
qed

text \<open>
  C9, as the code has it: an identifier that is a non-empty run of decimal digits gives
  the URL \<open>BASE_URL/book/<id>\<close>, and \<open>id_from_url\<close> reads the same identifier back
  from that URL.
\<close>

theorem id_url_roundtrip_digits:
  assumes "i \<noteq> []" and "\<forall>c\<in>set i. is_digit e c"
  shows "get_book_url [str_of ''livelib'' \<mapsto> i] = Some (BASE_URL @ str_of ''/book/'' @ i) \<and>
         Option.bind (get_book_url [str_of ''livelib'' \<mapsto> i]) (id_from_url e) = Some i"
  using assms search_book_id [OF assms]
  by (simp add: get_book_url_def id_from_url_def)

theorem id_url_roundtrip_digits_witness:
  "Option.bind (get_book_url [str_of ''livelib'' \<mapsto> str_of ''1000456789''])
     (id_from_url offline_env) = Some (str_of ''1000456789'')"
proof -
  have d: "\<forall>c\<in>set (str_of ''1000456789''). is_digit offline_env c"
    by (simp add: str_of_def is_digit_def offline_env_def example_env_def ascii_digit_def)
  have n: "str_of ''1000456789'' \<noteq> []"
    by (simp add: str_of_def)
  show ?thesis
    using id_url_roundtrip_digits [OF n d] by (rule conjunct2)
qed

text \<open>
  C9 as stated fails for an identifier that is not all digits: the slug of a site URL
  comes back cut at its first non-digit.
\<close>

theorem id_url_roundtrip_counterexample:
  "Option.bind (get_book_url [str_of ''livelib'' \<mapsto> str_of ''1000456789-angel''])
     (id_from_url offline_env) = Some (str_of ''1000456789'') \<and>
   str_of ''1000456789'' \<noteq> str_of ''1000456789-angel''"
  by (simp add: get_book_url_def id_from_url_def BASE_URL_def str_of_def match_here_def
      startswith_def is_digit_def offline_env_def example_env_def ascii_digit_def)

section \<open>Cover download without an identifier\<close>

text \<open>
  C10: when the identifiers hold no \<open>livelib\<close> key (or are absent), \<open>download_cover\<close>
  leaves the state as it found it: no URL is fetched and nothing is put on the result
  queue, whatever title and authors are given.
\<close>

theorem download_cover_without_id:
  assumes "livelib_of identifiers = None"
  shows "download_cover e title authors identifiers st = st \<and>
         fetched (download_cover e title authors identifiers st) = fetched st \<and>
         result_queue (download_cover e title authors identifiers st) = result_queue st"
  using assms by (simp add: download_cover_def fetch_cover_def)

theorem download_cover_without_id_witness:
  "download_cover offline_env (Some (str_of ''Dune'')) (Some [str_of ''Frank Herbert''])
     (Some [str_of ''isbn'' \<mapsto> str_of ''9780441013593'']) empty_state = empty_state"
proof -
  have h: "livelib_of (Some [str_of ''isbn'' \<mapsto> str_of ''9780441013593'']) = None"
    by (simp add: livelib_of_def str_of_def)
  show ?thesis
    using download_cover_without_id [OF h] by (rule conjunct1)
qed

section \<open>The extractor\<close>

lemma dune_id: "id_from_url offline_env dune_url = Some (str_of ''1000456789'')"
  by (simp add: id_from_url_def dune_url_def string_defs example_defs)

lemma dune_fields:
  "resolve_fields offline_env dune_page =
     Inr (initial_fields
       \<lparr>f_title := JStr (str_of ''Dune''), f_authors := [JStr (str_of ''Frank Herbert'')],
        f_rating := Some (Fin (9 / 2)),
        f_cover_url := JStr (str_of ''https://i.livelib.ru/dune.jpg'')\<rparr>)"
  by (simp add: resolve_fields_def json_ld_fields_def extract_json_ld_def html_fields_def
      dune_page_def dune_ld_def dune_rating_def example_defs str_of_def dict_get_def dict_get_default_def ld_rating_def
      ld_authors_def author_name_def ld_publisher_def ld_genres_def html_title_def
      html_authors_def html_genres_def html_pub_year_def initial_fields_def)

lemma dune_extract:
  "extract_core offline_env dune_page dune_url empty_state = Inr (Some dune_record, dune_state)"
  by (simp add: extract_core_def dune_fields dune_id build_metadata_def initial_fields_def
      dune_record_def dune_state_def cache_key_def float_max_def empty_state_def) (simp add: str_of_def)

lemma blank_fields: "resolve_fields offline_env blank_document = Inr initial_fields"
  by (simp add: resolve_fields_def json_ld_fields_def extract_json_ld_def html_fields_def
      example_defs html_title_def html_authors_def html_genres_def html_pub_year_def
      initial_fields_def)

lemma author_name_truthy: "a \<in> set (author_name x) \<Longrightarrow> truthy a"
  by (cases x) (auto simp: author_name_def split: if_splits)

lemma ld_authors_truthy: "a \<in> set (ld_authors x) \<Longrightarrow> truthy a"
  by (cases x) (auto simp: ld_authors_def split: if_splits dest: author_name_truthy)

lemma collect_texts_truthy:
  "\<forall>a\<in>set acc. truthy a \<Longrightarrow> \<forall>a\<in>set (collect_texts ts acc). truthy a"
proof (induction ts arbitrary: acc)
  case Nil
  then show ?case by simp
next
  case (Cons t ts)
  show ?case
  proof (cases "strip t \<noteq> [] \<and> JStr (strip t) \<notin> set acc")
    case True
    then have "\<forall>a\<in>set (acc @ [JStr (strip t)]). truthy a"
      using Cons.prems by simp
    from Cons.IH [OF this] True show ?thesis by simp
  next
    case False
    with Cons.IH [OF Cons.prems] show ?thesis by auto
  qed
qed

lemma json_ld_fields_authors:
  "json_ld_fields e jl = Inr f \<Longrightarrow> \<forall>a\<in>set (f_authors f). truthy a"
  by (auto simp: json_ld_fields_def initial_fields_def split: option.splits if_splits sum.splits
      dest: ld_authors_truthy)

lemma html_authors_truthy:
  "\<forall>a\<in>set authors. truthy a \<Longrightarrow> \<forall>a\<in>set (html_authors doc authors). truthy a"
  using collect_texts_truthy [of "[]"] by (simp add: html_authors_def)

lemma resolve_fields_authors:
  assumes "resolve_fields e doc = Inr f"
  shows "\<forall>a\<in>set (f_authors f). truthy a"
proof -
  from assms obtain jl f0 where f0: "json_ld_fields e jl = Inr f0"
    and hf: "html_fields e doc f0 = Inr f"
    by (auto simp: resolve_fields_def split: sum.splits)
  from hf have "f_authors f = html_authors doc (f_authors f0)"
    by (auto simp: html_fields_def split: sum.splits prod.splits)
  with html_authors_truthy [OF json_ld_fields_authors [OF f0]] show ?thesis by simp
qed

lemma extract_core_Some:
  assumes "extract_core e doc url st = Inr (Some mi, st')"
  shows "\<exists>f. resolve_fields e doc = Inr f \<and> truthy (f_title f) \<and> f_authors f \<noteq> [] \<and>
             mi = build_metadata e (id_from_url e url) f"
  using assms by (auto simp: extract_core_def split: sum.splits if_splits)

text \<open>
  C1: whenever the resolved title is empty (falsy) or the resolved list of authors is
  empty, the extraction core returns no record and leaves the state alone; and every
  record it returns has a non-empty title and at least one author, each author name
  non-empty.
\<close>

theorem extract_core_title_and_authors:
  "(\<forall>f. resolve_fields e doc = Inr f \<and> (\<not> truthy (f_title f) \<or> f_authors f = []) \<longrightarrow>
        extract_core e doc url st = Inr (None, st)) \<and>
   (\<forall>mi st'. extract_core e doc url st = Inr (Some mi, st') \<longrightarrow>
        truthy (mi_title mi) \<and> mi_title mi \<noteq> JStr [] \<and> mi_authors mi \<noteq> [] \<and>
        (\<forall>a\<in>set (mi_authors mi). truthy a))"
proof (intro conjI allI impI)
  fix f
  assume "resolve_fields e doc = Inr f \<and> (\<not> truthy (f_title f) \<or> f_authors f = [])"
  then show "extract_core e doc url st = Inr (None, st)"
    by (auto simp: extract_core_def)
next
  fix mi st'
  assume ex: "extract_core e doc url st = Inr (Some mi, st')"
  from extract_core_Some [OF ex] obtain f where f: "resolve_fields e doc = Inr f"
    and t: "truthy (f_title f)" and a: "f_authors f \<noteq> []"
    and mi: "mi = build_metadata e (id_from_url e url) f"
    by blast
  show "truthy (mi_title mi)" using t mi by (simp add: build_metadata_def)
  show "mi_title mi \<noteq> JStr []" using t mi by (auto simp: build_metadata_def)
  show "mi_authors mi \<noteq> []" using a mi by (simp add: build_metadata_def)
  show "\<forall>a\<in>set (mi_authors mi). truthy a"
    using resolve_fields_authors [OF f] mi by (simp add: build_metadata_def)
qed

theorem extract_core_title_and_authors_witness:
  "extract_core offline_env blank_document dune_url empty_state = Inr (None, empty_state) \<and>
   truthy (mi_title dune_record) \<and> mi_title dune_record \<noteq> JStr [] \<and>
   mi_authors dune_record \<noteq> [] \<and> list_all truthy (mi_authors dune_record)"
proof -
  have "\<not> truthy (f_title initial_fields) \<or> f_authors initial_fields = []"
    by (simp add: initial_fields_def)
  with blank_fields
  have 1: "extract_core offline_env blank_document dune_url empty_state = Inr (None, empty_state)"
    using extract_core_title_and_authors [of offline_env blank_document dune_url empty_state]
    by blast
  have 2: "truthy (mi_title dune_record) \<and> mi_title dune_record \<noteq> JStr [] \<and>
      mi_authors dune_record \<noteq> [] \<and> (\<forall>a\<in>set (mi_authors dune_record). truthy a)"
    using extract_core_title_and_authors [of offline_env dune_page dune_url empty_state]
      dune_extract by blast
  show ?thesis using 1 2 by (simp add: list_all_iff)
qed

section \<open>The rating\<close>

lemma float_of_small_int:
  assumes "0 \<le> n" and "n \<le> 5"
  shows "float_of_int n = Inr (Fin (of_int n))"
proof -
  have "nat \<bar>n\<bar> < 2 ^ 53" using assms by simp
  then have r: "round53 (nat \<bar>n\<bar>) = nat \<bar>n\<bar>" by (simp add: round53_def)
  have "\<not> (2 ^ 1024 - 2 ^ 970 \<le> \<bar>n\<bar>)" using assms by simp
  moreover have "sgn n * int (nat \<bar>n\<bar>) = n" using assms by (simp add: sgn_if)
  ultimately show ?thesis by (simp add: float_of_int_def r)
qed

lemma py_float_numeric:
  assumes "numeric v = Some r" and "0 \<le> r" and "r \<le> 5"
  shows "py_float e v = Inr (Fin r)"
proof (cases v)
  case (JInt n)
  with assms have "r = of_int n" by simp
  with assms have "0 \<le> n" "n \<le> 5" by simp_all
  from float_of_small_int [OF this] JInt \<open>r = of_int n\<close> show ?thesis by simp
next
  case (JFloat f)
  with assms show ?thesis by (cases f) simp_all
qed (use assms in simp_all)

lemma resolve_fields_rating:
  assumes "resolve_fields e doc = Inr f" and "extract_json_ld doc = Inr (Some d)"
    and "dict_get d (str_of ''aggregateRating'') = JDict rd"
  shows "ld_rating e (JDict rd) = Inr (f_rating f)"
proof -
  have "d \<noteq> []" using assms(3) by (auto simp: dict_get_def dict_get_default_def)
  with assms show ?thesis
    by (auto simp: resolve_fields_def json_ld_fields_def html_fields_def
        split: sum.splits prod.splits)
qed

lemma dune_ld: "extract_json_ld dune_page = Inr (Some dune_ld)"
  by (simp add: extract_json_ld_def dune_page_def blank_document_def dune_ld_def dict_get_def
      dict_get_default_def str_of_def)

lemma unrated_ld: "extract_json_ld unrated_page = Inr (Some unrated_ld)"
  by (simp add: extract_json_ld_def unrated_page_def blank_document_def unrated_ld_def
      dict_get_def dict_get_default_def str_of_def)

lemma unrated_fields:
  "resolve_fields offline_env unrated_page =
     Inr (initial_fields
       \<lparr>f_title := JStr (str_of ''Dune''), f_authors := [JStr (str_of ''Frank Herbert'')],
        f_rating := Some (Fin 0)\<rparr>)"
  by (simp add: resolve_fields_def json_ld_fields_def extract_json_ld_def html_fields_def
      unrated_page_def unrated_ld_def unrated_rating_def example_defs str_of_def dict_get_def
      dict_get_default_def ld_rating_def float_of_int_def round53_def
      ld_authors_def author_name_def ld_publisher_def ld_genres_def html_title_def
      html_authors_def html_genres_def html_pub_year_def initial_fields_def)

lemma unrated_extract:
  "extract_core offline_env unrated_page dune_url empty_state = Inr (Some unrated_record, empty_state)"
  by (simp add: extract_core_def unrated_fields dune_id build_metadata_def initial_fields_def
      unrated_record_def dune_record_def empty_state_def) (simp add: str_of_def)

text \<open>
  C3, as the code has it: when the aggregate rating of the JSON-LD block holds a numeric
  rating value \<open>r\<close> with \<open>0 \<le> r \<le> 5\<close>, a returned record carries the rating
  \<open>2 * r\<close>, which lies between 0 and 10, unless \<open>r\<close> is zero: a rating of zero is
  not set on the record.
\<close>

theorem rating_is_doubled:
  assumes "extract_json_ld doc = Inr (Some d)"
    and "dict_get d (str_of ''aggregateRating'') = JDict rd"
    and "map_of rd (str_of ''ratingValue'') = Some v"
    and "numeric v = Some r" and "0 \<le> r" and "r \<le> 5"
    and "extract_core e doc url st = Inr (Some mi, st')"
  shows "mi_rating mi = (if r = 0 then None else Some (Fin (2 * r))) \<and> 0 \<le> 2 * r \<and> 2 * r \<le> 10"
proof -
  from extract_core_Some [OF assms(7)] obtain f where f: "resolve_fields e doc = Inr f"
    and mi: "mi = build_metadata e (id_from_url e url) f"
    by blast
  have "rd \<noteq> []" using assms(3) by auto
  moreover have "dict_get_default rd (str_of ''ratingValue'') (JInt 0) = v"
    using assms(3) by (simp add: dict_get_default_def)
  ultimately have "ld_rating e (JDict rd) = Inr (Some (Fin r))"
    using py_float_numeric [OF assms(4-6)] by (simp add: ld_rating_def)
  with resolve_fields_rating [OF f assms(1,2)] have "f_rating f = Some (Fin r)" by simp
  moreover have "\<not> float_max < 2 * r" "\<not> 2 * r < - float_max"
    using assms(5,6) by (simp_all add: float_max_def)
  ultimately show ?thesis
    using mi assms(5,6) by (simp add: build_metadata_def)
qed


theorem rating_is_doubled_witness:
  "mi_rating dune_record = Some (Fin (2 * (9 / 2))) \<and> mi_rating unrated_record = None"
proof -
  have a: "dict_get dune_ld (str_of ''aggregateRating'') = JDict dune_rating"
    by (simp add: dune_ld_def dict_get_def dict_get_default_def str_of_def)
  have v: "map_of dune_rating (str_of ''ratingValue'') = Some (JFloat (Fin (9 / 2)))"
    by (simp add: dune_rating_def)
  have n: "numeric (JFloat (Fin (9 / 2))) = Some (9 / 2)" "(0::rat) \<le> 9 / 2" "(9 / 2 :: rat) \<le> 5"
    by simp_all
  have a0: "dict_get unrated_ld (str_of ''aggregateRating'') = JDict unrated_rating"
    by (simp add: unrated_ld_def dict_get_def dict_get_default_def str_of_def)
  have v0: "map_of unrated_rating (str_of ''ratingValue'') = Some (JInt 0)"
    by (simp add: unrated_rating_def)
  have n0: "numeric (JInt 0) = Some 0" "(0::rat) \<le> 0" "(0::rat) \<le> 5"
    by simp_all
  show ?thesis
    using rating_is_doubled [OF dune_ld a v n dune_extract]
      rating_is_doubled [OF unrated_ld a0 v0 n0 unrated_extract]
    by simp
qed


text \<open>
  C3 as stated fails at \<open>r = 0\<close>: the record is returned without a rating, not with
  the rating 0.
\<close>

theorem rating_zero_counterexample:
  "extract_core offline_env unrated_page dune_url empty_state =
     Inr (Some unrated_record, empty_state) \<and>
   map_of unrated_rating (str_of ''ratingValue'') = Some (JInt 0) \<and>
   mi_rating unrated_record = None \<and> mi_rating unrated_record \<noteq> Some (Fin (2 * 0))"
  by (simp add: unrated_extract) (simp add: unrated_record_def unrated_rating_def)

section \<open>The markup fallbacks\<close>

lemma remdups_snoc: "remdups (ys @ [x]) = remdups (filter (\<lambda>y. y \<noteq> x) ys) @ [x]"
  by (induction ys) auto

lemma foldl_first_seen:
  "foldl (\<lambda>acc x. if x \<in> set acc then acc else acc @ [x]) acc xs =
     acc @ rev (remdups (rev (filter (\<lambda>x. x \<notin> set acc) xs)))"
proof (induction xs arbitrary: acc)
  case Nil
  then show ?case by simp
next
  case (Cons x xs)
  show ?case
  proof (cases "x \<in> set acc")
    case True
    with Cons.IH [of acc] show ?thesis by simp
  next
    case False
    have "filter (\<lambda>y. y \<notin> set (acc @ [x])) xs =
          filter (\<lambda>y. y \<noteq> x) (filter (\<lambda>y. y \<notin> set acc) xs)"
      by (induction xs) auto
    with False Cons.IH [of "acc @ [x]"] show ?thesis
      by (simp add: remdups_snoc rev_filter conj_commute)
  qed
qed

lemma fromkeys_first_seen: "fromkeys xs = rev (remdups (rev xs))"
  using foldl_first_seen [of "[]" xs] by (simp add: fromkeys_def)

lemma collect_texts_foldl:
  "collect_texts ts acc =
     foldl (\<lambda>acc x. if x \<in> set acc then acc else acc @ [x]) acc
       (map JStr (filter (\<lambda>s. s \<noteq> []) (map strip ts)))"
  by (induction ts arbitrary: acc) auto

lemma remdups_map_inj: "inj f \<Longrightarrow> remdups (map f xs) = map f (remdups xs)"
  by (induction xs) (auto simp: inj_image_mem_iff)

lemma collect_texts_first_seen:
  "collect_texts ts [] = map JStr (rev (remdups (rev (filter (\<lambda>s. s \<noteq> []) (map strip ts)))))"
proof -
  have "inj JStr" by (simp add: inj_def)
  then show ?thesis
    using foldl_first_seen [of "[]" "map JStr (filter (\<lambda>s. s \<noteq> []) (map strip ts))"]
    by (simp add: collect_texts_foldl remdups_map_inj rev_map)
qed

lemma resolve_fields_fallbacks:
  assumes "resolve_fields e doc = Inr f"
  shows "f_title f = html_title doc (structured_title doc)"
    and "f_authors f = html_authors doc (structured_authors doc)"
    and "f_genres f = html_genres doc (structured_genres doc)"
  using assms
  by (auto simp: resolve_fields_def json_ld_fields_def html_fields_def initial_fields_def
      structured_title_def structured_authors_def structured_genres_def
      split: sum.splits prod.splits option.splits if_splits)

lemma ld_omits_title: "ld_omits doc (str_of ''name'') \<Longrightarrow> structured_title doc = JStr []"
  by (auto simp: ld_omits_def structured_title_def dict_get_default_def
      split: option.splits sum.splits)

lemma ld_omits_authors: "ld_omits doc (str_of ''author'') \<Longrightarrow> structured_authors doc = []"
  by (auto simp: ld_omits_def structured_authors_def dict_get_def dict_get_default_def
      ld_authors_def split: option.splits sum.splits)

lemma ld_omits_genres: "ld_omits doc (str_of ''genre'') \<Longrightarrow> structured_genres doc = []"
  by (auto simp: ld_omits_def structured_genres_def dict_get_def dict_get_default_def
      ld_genres_def split: option.splits sum.splits)

lemma collect_texts_set:
  "set (collect_texts ts acc) = set acc \<union> JStr ` (strip ` set ts - {[]})"
  by (induction ts arbitrary: acc) auto

lemma collect_texts_distinct: "distinct acc \<Longrightarrow> distinct (collect_texts ts acc)"
  by (induction ts arbitrary: acc) auto

lemma collect_texts_length: "length (collect_texts ts acc) \<le> length acc + length ts"
proof (induction ts arbitrary: acc)
  case Nil
  then show ?case by simp
next
  case (Cons t ts)
  from Cons [of acc] Cons [of "acc @ [JStr (strip t)]"] show ?case by auto
qed

lemma tolstoy_resolve: "resolve_fields offline_env tolstoy_page = Inr tolstoy_fields"
  by (simp add: resolve_fields_def json_ld_fields_def extract_json_ld_def html_fields_def
      tolstoy_page_def tolstoy_fields_def example_defs html_title_def html_authors_def
      html_genres_def html_pub_year_def initial_fields_def voina_i_mir_def lev_tolstoy_def
      a_ivanov_def strip_def py_isspace_def str_of_def)

lemma tolstoy_no_ld: "extract_json_ld tolstoy_page = Inr None"
  by (simp add: extract_json_ld_def tolstoy_page_def blank_document_def)

lemma strip_lev_tolstoy: "strip lev_tolstoy = lev_tolstoy"
  by (simp add: lev_tolstoy_def strip_def py_isspace_def)

lemma strip_heading: "strip ([10, 32] @ voina_i_mir @ [10]) = voina_i_mir"
  by (simp add: voina_i_mir_def strip_def py_isspace_def)

lemma strip_novel: "strip (str_of ''Novel'') = str_of ''Novel''"
  by (simp add: str_of_def strip_def py_isspace_def)

lemmas fallback_defs =
  resolve_fields_def json_ld_fields_def extract_json_ld_def html_fields_def html_title_def
  html_authors_def html_genres_def html_pub_year_def initial_fields_def

lemma tolstoy_extract:
  "extract_core offline_env tolstoy_page dune_url empty_state =
     Inr (Some tolstoy_record, empty_state)"
  by (simp add: extract_core_def tolstoy_resolve dune_id build_metadata_def tolstoy_fields_def
      initial_fields_def tolstoy_record_def voina_i_mir_def lev_tolstoy_def)
     (simp add: str_of_def)

lemma sidebar_resolve: "resolve_fields offline_env sidebar_page = Inr sidebar_fields"
  by (simp add: fallback_defs sidebar_page_def sidebar_fields_def blank_link_def example_defs
      voina_i_mir_def lev_tolstoy_def a_ivanov_def p_petrov_def strip_def py_isspace_def
      str_of_def)

lemma span_heading_resolve:
  "resolve_fields offline_env span_heading_page = Inr span_heading_fields"
  by (simp add: fallback_defs span_heading_page_def span_heading_fields_def span_heading_def
      example_defs strip_def py_isspace_def str_of_def)

text \<open>
  C7, as the code has it: when the JSON-LD block gives no author, the authors are read
  from the first three direct text nodes of the author links, in document order (a link
  without a text node of its own gives none, so a later link takes its place): their
  texts, stripped, without the empty ones, each kept at its first occurrence (so no
  duplicates, at most three, in order of appearance).  For three links that hold the texts
  \<open>Lev Tolstoy\<close>, \<open>Lev Tolstoy\<close>, \<open>A. Ivanov\<close> (in Cyrillic) the authors are
  \<open>Lev Tolstoy\<close>, \<open>A. Ivanov\<close>.
\<close>

theorem authors_markup_fallback:
  assumes "structured_authors doc = []" and "resolve_fields e doc = Inr f"
  shows "f_authors f =
           map JStr (rev (remdups (rev (filter (\<lambda>s. s \<noteq> [])
             (map strip (take 3 (concat (map text_nodes (author_links doc))))))))) \<and>
         distinct (f_authors f) \<and> length (f_authors f) \<le> 3 \<and>
         (map text_nodes (author_links doc) = [[lev_tolstoy], [lev_tolstoy], [a_ivanov]] \<longrightarrow>
            f_authors f = [JStr lev_tolstoy, JStr a_ivanov])"
proof -
  have t: "author_texts doc = concat (map text_nodes (author_links doc))"
    by (simp add: author_texts_def xpath_text_def)
  have a: "f_authors f = collect_texts (take 3 (author_texts doc)) []"
    using resolve_fields_fallbacks(2) [OF assms(2)] assms(1) by (simp add: html_authors_def)
  have "length (f_authors f) \<le> 3"
    using collect_texts_length [of "take 3 (author_texts doc)" "[]"] a by simp
  moreover have "distinct (f_authors f)"
    using collect_texts_distinct [of "[]"] a by simp
  moreover have "collect_texts [lev_tolstoy, lev_tolstoy, a_ivanov] [] =
      [JStr lev_tolstoy, JStr a_ivanov]"
    by (simp add: lev_tolstoy_def a_ivanov_def strip_def py_isspace_def)
  ultimately show ?thesis
    using a by (simp add: collect_texts_first_seen t)
qed

theorem authors_markup_fallback_witness:
  "f_authors tolstoy_fields = [JStr lev_tolstoy, JStr a_ivanov]"
proof -
  have s: "structured_authors tolstoy_page = []"
    by (simp add: structured_authors_def tolstoy_no_ld)
  have t: "map text_nodes (author_links tolstoy_page) =
      [[lev_tolstoy], [lev_tolstoy], [a_ivanov]]"
    by (simp add: tolstoy_page_def blank_document_def text_link_def)
  show ?thesis
    by (rule authors_markup_fallback [OF s tolstoy_resolve, THEN conjunct2, THEN conjunct2,
          THEN conjunct2, rule_format, OF t])
qed

text \<open>
  C7 as stated fails when an author link has no text node of its own: with a portrait
  link before three named links, the name of the fourth link is among the authors, so
  more than the first three author links are considered.
\<close>

theorem authors_past_third_link_counterexample:
  "author_links sidebar_page =
     [blank_link, text_link lev_tolstoy, text_link a_ivanov, text_link p_petrov] \<and>
   structured_authors sidebar_page = [] \<and>
   resolve_fields offline_env sidebar_page = Inr sidebar_fields \<and>
   f_authors sidebar_fields = [JStr lev_tolstoy, JStr a_ivanov, JStr p_petrov] \<and>
   p_petrov \<notin> set (map text_content (take 3 (author_links sidebar_page)))"
  by (simp add: sidebar_resolve)
     (simp add: sidebar_page_def sidebar_fields_def structured_authors_def extract_json_ld_def
        blank_document_def text_link_def blank_link_def lev_tolstoy_def a_ivanov_def
        p_petrov_def str_of_def)

text \<open>
  C4, as the code has it: for each field with a markup fallback, when the JSON-LD block is
  absent or has no key for the field and the markup has the field where the fallback reads
  it, the field is resolved from the markup and is not left empty: the title is the
  stripped first direct text node of the headings when that is not blank; the authors are
  the non-blank stripped texts among the first three direct text nodes of the author
  links; the genres are the non-blank stripped direct text nodes of the genre links.
  When a title and an author are resolved, a record is returned and carries these values.
\<close>

theorem markup_fallback:
  assumes "resolve_fields e doc = Inr f"
  shows "(\<forall>h hs. ld_omits doc (str_of ''name'') \<and>
            concat (map text_nodes (h1_elems doc)) = h # hs \<and> strip h \<noteq> [] \<longrightarrow>
            f_title f = JStr (strip h)) \<and>
         (ld_omits doc (str_of ''author'') \<and>
            (\<exists>t\<in>set (take 3 (concat (map text_nodes (author_links doc)))). strip t \<noteq> []) \<longrightarrow>
            f_authors f \<noteq> [] \<and>
            set (f_authors f) =
              JStr ` (strip ` set (take 3 (concat (map text_nodes (author_links doc)))) - {[]})) \<and>
         (ld_omits doc (str_of ''genre'') \<and>
            (\<exists>t\<in>set (concat (map text_nodes (genre_links doc))). strip t \<noteq> []) \<longrightarrow>
            f_genres f \<noteq> [] \<and>
            set (f_genres f) =
              JStr ` (strip ` set (concat (map text_nodes (genre_links doc))) - {[]})) \<and>
         (truthy (f_title f) \<and> f_authors f \<noteq> [] \<longrightarrow>
            (\<exists>mi st'. extract_core e doc url st = Inr (Some mi, st') \<and>
               mi_title mi = f_title f \<and> mi_authors mi = f_authors f \<and>
               mi_tags mi = (if f_genres f = [] then None else Some (f_genres f))))"
proof (intro conjI allI impI)
  fix h hs
  assume "ld_omits doc (str_of ''name'') \<and>
    concat (map text_nodes (h1_elems doc)) = h # hs \<and> strip h \<noteq> []"
  then show "f_title f = JStr (strip h)"
    using resolve_fields_fallbacks(1) [OF assms] ld_omits_title [of doc]
    by (simp add: html_title_def h1_texts_def xpath_text_def)
next
  assume h: "ld_omits doc (str_of ''author'') \<and>
    (\<exists>t\<in>set (take 3 (concat (map text_nodes (author_links doc)))). strip t \<noteq> [])"
  then have a: "f_authors f = collect_texts (take 3 (concat (map text_nodes (author_links doc)))) []"
    using resolve_fields_fallbacks(2) [OF assms] ld_omits_authors [of doc]
    by (simp add: html_authors_def author_texts_def xpath_text_def)
  then show s: "set (f_authors f) =
      JStr ` (strip ` set (take 3 (concat (map text_nodes (author_links doc)))) - {[]})"
    by (simp add: collect_texts_set)
  from h obtain t where "t \<in> set (take 3 (concat (map text_nodes (author_links doc))))"
    and "strip t \<noteq> []"
    by blast
  then have "JStr (strip t) \<in> set (f_authors f)" unfolding s by blast
  then show "f_authors f \<noteq> []" by auto
next
  assume h: "ld_omits doc (str_of ''genre'') \<and>
    (\<exists>t\<in>set (concat (map text_nodes (genre_links doc))). strip t \<noteq> [])"
  then have a: "f_genres f = collect_texts (concat (map text_nodes (genre_links doc))) []"
    using resolve_fields_fallbacks(3) [OF assms] ld_omits_genres [of doc]
    by (simp add: html_genres_def genre_texts_def xpath_text_def)
  then show s: "set (f_genres f) =
      JStr ` (strip ` set (concat (map text_nodes (genre_links doc))) - {[]})"
    by (simp add: collect_texts_set)
  from h obtain t where "t \<in> set (concat (map text_nodes (genre_links doc)))"
    and "strip t \<noteq> []"
    by blast
  then have "JStr (strip t) \<in> set (f_genres f)" unfolding s by blast
  then show "f_genres f \<noteq> []" by auto
next
  assume "truthy (f_title f) \<and> f_authors f \<noteq> []"
  then show "\<exists>mi st'. extract_core e doc url st = Inr (Some mi, st') \<and>
      mi_title mi = f_title f \<and> mi_authors mi = f_authors f \<and>
      mi_tags mi = (if f_genres f = [] then None else Some (f_genres f))"
    using assms by (simp add: extract_core_def build_metadata_def)
qed

theorem markup_fallback_witness:
  "extract_core offline_env tolstoy_page dune_url empty_state =
     Inr (Some tolstoy_record, empty_state) \<and>
   mi_title tolstoy_record = JStr voina_i_mir \<and>
   mi_authors tolstoy_record = f_authors tolstoy_fields \<and>
   mi_tags tolstoy_record = Some (f_genres tolstoy_fields) \<and>
   f_authors tolstoy_fields \<noteq> [] \<and> f_genres tolstoy_fields \<noteq> []"
proof -
  have o: "ld_omits tolstoy_page k" for k
    by (simp add: ld_omits_def tolstoy_no_ld)
  have h: "concat (map text_nodes (h1_elems tolstoy_page)) =
      ([10, 32] @ voina_i_mir @ [10]) # []"
    by (simp add: tolstoy_page_def blank_document_def text_link_def)
  have nh: "strip ([10, 32] @ voina_i_mir @ [10]) \<noteq> []"
    unfolding strip_heading by (simp add: voina_i_mir_def)
  have "lev_tolstoy \<in> set (take 3 (concat (map text_nodes (author_links tolstoy_page))))"
    by (simp add: tolstoy_page_def blank_document_def text_link_def)
  moreover have "strip lev_tolstoy \<noteq> []"
    unfolding strip_lev_tolstoy by (simp add: lev_tolstoy_def)
  ultimately have ea:
    "\<exists>t\<in>set (take 3 (concat (map text_nodes (author_links tolstoy_page)))). strip t \<noteq> []"
    by blast
  have "str_of ''Novel'' \<in> set (concat (map text_nodes (genre_links tolstoy_page)))"
    by (simp add: tolstoy_page_def blank_document_def text_link_def)
  moreover have "strip (str_of ''Novel'') \<noteq> []"
    unfolding strip_novel by (simp add: str_of_def)
  ultimately have eg:
    "\<exists>t\<in>set (concat (map text_nodes (genre_links tolstoy_page))). strip t \<noteq> []"
    by blast
  note mf = markup_fallback [OF tolstoy_resolve, of dune_url empty_state]
  have t: "f_title tolstoy_fields = JStr (strip ([10, 32] @ voina_i_mir @ [10]))"
    by (rule mf [THEN conjunct1, rule_format, OF conjI [OF o conjI [OF h nh]]])
  have a: "f_authors tolstoy_fields \<noteq> []"
    by (rule mf [THEN conjunct2, THEN conjunct1, rule_format, OF conjI [OF o ea],
          THEN conjunct1])
  have g: "f_genres tolstoy_fields \<noteq> []"
    by (rule mf [THEN conjunct2, THEN conjunct2, THEN conjunct1, rule_format,
          OF conjI [OF o eg], THEN conjunct1])
  have tt: "truthy (f_title tolstoy_fields)"
    unfolding t strip_heading by (simp add: voina_i_mir_def)
  from mf [THEN conjunct2, THEN conjunct2, THEN conjunct2, rule_format, OF conjI [OF tt a]]
  obtain mi st' where
    ex: "extract_core offline_env tolstoy_page dune_url empty_state = Inr (Some mi, st')"
    and m: "mi_title mi = f_title tolstoy_fields" "mi_authors mi = f_authors tolstoy_fields"
      "mi_tags mi = (if f_genres tolstoy_fields = [] then None else Some (f_genres tolstoy_fields))"
    by blast
  from ex tolstoy_extract have "mi = tolstoy_record" by simp
  with m t g a tolstoy_extract show ?thesis
    by (simp only: strip_heading if_False simp_thms)
qed

text \<open>
  C4 as stated fails when the markup holds the field where the fallback does not read it:
  the heading is on the page, its text in a child element, and neither the JSON-LD block
  nor the fallback gives a title, so no record is returned.
\<close>

theorem heading_in_child_counterexample:
  "ld_omits span_heading_page (str_of ''name'') \<and>
   h1_elems span_heading_page = [span_heading] \<and>
   text_content span_heading = str_of ''Dune'' \<and>
   resolve_fields offline_env span_heading_page = Inr span_heading_fields \<and>
   f_title span_heading_fields = JStr [] \<and>
   extract_core offline_env span_heading_page dune_url empty_state = Inr (None, empty_state)"
  by (simp add: span_heading_resolve extract_core_def)
     (simp add: span_heading_page_def span_heading_fields_def span_heading_def ld_omits_def
        extract_json_ld_def blank_document_def initial_fields_def)

section \<open>The series\<close>

lemma html_series_none:
  "find (\<lambda>l. strip (text_content l) \<noteq> []) ls = None \<Longrightarrow> html_series e ls = Inr (None, None)"
  by (induction ls) (auto split: if_splits)

lemma match_hash_empty: "match_here e (str_of ''#'') [] = None"
  by (simp add: match_here_def startswith_def str_of_def)

lemma html_series_some:
  assumes "find (\<lambda>l. strip (text_content l) \<noteq> []) ls = Some l"
    and "html_series e ls = Inr (s, i)"
  shows "s = Some (strip (text_content l)) \<and>
         i = (case tail l of
                None \<Rightarrow> None
              | Some t \<Rightarrow>
                  (case re_search_digits e (str_of ''#'') t of
                     None \<Rightarrow> None
                   | Some g \<Rightarrow> (case int_of_digits e g of Inl err \<Rightarrow> None | Inr n \<Rightarrow> Some n)))"
  using assms
proof (induction ls)
  case Nil
  then show ?case by simp
next
  case (Cons a ls)
  show ?case
  proof (cases "strip (text_content a) \<noteq> []")
    case True
    with Cons.prems have "l = a" by simp
    with True Cons.prems(2) show ?thesis
      by (auto simp: match_hash_empty split: option.splits if_splits sum.splits)
  next
    case False
    with Cons show ?thesis by simp
  qed
qed

lemma resolve_fields_series:
  assumes "resolve_fields e doc = Inr f"
  shows "html_series e (series_links doc) = Inr (f_series f, f_series_index f)"
  using assms
  by (auto simp: resolve_fields_def html_fields_def split: sum.splits prod.splits)

lemmas resolve_defs =
  resolve_fields_def json_ld_fields_def extract_json_ld_def html_fields_def dict_get_def
  dict_get_default_def ld_rating_def ld_authors_def author_name_def ld_publisher_def
  ld_genres_def html_title_def html_authors_def html_genres_def html_pub_year_def
  initial_fields_def

lemma numbered_tail:
  "re_search_digits offline_env (str_of ''#'') (str_of '' #2 in the series'') = Some (str_of ''2'')"
  by (simp add: string_defs example_defs)

lemma unnumbered_tail:
  "re_search_digits offline_env (str_of ''#'') (str_of '' (series)'') = None"
  by (simp add: string_defs example_defs)

lemma int_of_2: "int_of_digits offline_env (str_of ''2'') = Inr 2"
  by (simp add: int_of_digits_def str_of_def example_defs)

lemma strip_chronicles: "strip (str_of ''Dune Chronicles'') = str_of ''Dune Chronicles''"
  by (simp add: str_of_def strip_def py_isspace_def)

lemma chronicles_nonempty: "str_of ''Dune Chronicles'' \<noteq> []"
  by (simp add: str_of_def)

lemma series_page_link: "series_link series_page = Some numbered_link"
  by (simp add: series_link_def series_page_def blank_link_def numbered_link_def
      strip_chronicles chronicles_nonempty) (simp add: strip_def)

lemma unnumbered_page_link: "series_link unnumbered_page = Some unnumbered_link"
  by (simp add: series_link_def unnumbered_page_def unnumbered_link_def
      strip_chronicles chronicles_nonempty)

lemma dune_page_link: "series_link dune_page = None"
  by (simp add: series_link_def dune_page_def blank_document_def)

lemmas page_defs =
  series_page_def unnumbered_page_def dune_page_def dune_ld_def dune_rating_def
  blank_link_def numbered_link_def unnumbered_link_def

lemma series_fields:
  "resolve_fields offline_env series_page =
     Inr (initial_fields
       \<lparr>f_title := JStr (str_of ''Dune''), f_authors := [JStr (str_of ''Frank Herbert'')],
        f_rating := Some (Fin (9 / 2)),
        f_cover_url := JStr (str_of ''https://i.livelib.ru/dune.jpg''),
        f_series := Some (str_of ''Dune Chronicles''), f_series_index := Some 2\<rparr>)"
  by (simp add: resolve_defs page_defs example_defs string_defs int_of_digits_def strip_def
      py_isspace_def)

lemma unnumbered_fields:
  "resolve_fields offline_env unnumbered_page =
     Inr (initial_fields
       \<lparr>f_title := JStr (str_of ''Dune''), f_authors := [JStr (str_of ''Frank Herbert'')],
        f_rating := Some (Fin (9 / 2)),
        f_cover_url := JStr (str_of ''https://i.livelib.ru/dune.jpg''),
        f_series := Some (str_of ''Dune Chronicles'')\<rparr>)"
  by (simp add: resolve_defs page_defs example_defs string_defs int_of_digits_def strip_def
      py_isspace_def)

lemma series_extract:
  "extract_core offline_env series_page dune_url empty_state = Inr (Some series_record, dune_state)"
  by (simp add: extract_core_def series_fields dune_id build_metadata_def initial_fields_def
      series_record_def dune_record_def dune_state_def cache_key_def float_max_def
      empty_state_def) (simp add: str_of_def)

lemma unnumbered_extract:
  "extract_core offline_env unnumbered_page dune_url empty_state =
     Inr (Some unnumbered_record, dune_state)"
  by (simp add: extract_core_def unnumbered_fields dune_id build_metadata_def initial_fields_def
      unnumbered_record_def dune_record_def dune_state_def cache_key_def float_max_def
      empty_state_def) (simp add: str_of_def)

text \<open>
  C8, as the code has it: the series name is the stripped text content of the first
  series (or publisher-series) link whose stripped text is not empty; links without text
  before it are passed over.  Without such a link the record has neither series nor
  index.  The index is read only from the tail of that link: when the tail is absent or
  holds no \<open>#<digits>\<close>, the index is omitted and the name is kept; when the tail holds
  \<open>#<digits>\<close> and the number is not zero, the index is that number.
\<close>

theorem series_from_first_named_link:
  assumes "extract_core e doc url st = Inr (Some mi, st')"
  shows "mi_series mi = map_option (\<lambda>l. strip (text_content l)) (series_link doc) \<and>
         (series_link doc = None \<longrightarrow> mi_series_index mi = None) \<and>
         (\<forall>l. series_link doc = Some l \<and>
              (case tail l of None \<Rightarrow> True
               | Some t \<Rightarrow> re_search_digits e (str_of ''#'') t = None) \<longrightarrow>
              mi_series mi = Some (strip (text_content l)) \<and> mi_series_index mi = None) \<and>
         (\<forall>l t g n. series_link doc = Some l \<and> tail l = Some t \<and>
              re_search_digits e (str_of ''#'') t = Some g \<and> int_of_digits e g = Inr n \<and>
              n \<noteq> 0 \<longrightarrow>
              mi_series mi = Some (strip (text_content l)) \<and> mi_series_index mi = Some n)"
proof -
  from extract_core_Some [OF assms] obtain f where f: "resolve_fields e doc = Inr f"
    and mi: "mi = build_metadata e (id_from_url e url) f"
    by blast
  note hs = resolve_fields_series [OF f]
  show ?thesis
  proof (cases "series_link doc")
    case None
    then have "html_series e (series_links doc) = Inr (None, None)"
      unfolding series_link_def by (rule html_series_none)
    with hs have "f_series f = None" by simp
    with None mi show ?thesis by (simp add: build_metadata_def)
  next
    case (Some l)
    then have fl: "find (\<lambda>l. strip (text_content l) \<noteq> []) (series_links doc) = Some l"
      by (simp add: series_link_def)
    then have ne: "strip (text_content l) \<noteq> []"
      by (auto simp: find_Some_iff)
    note c = html_series_some [OF fl hs]
    from c ne have s: "mi_series mi = Some (strip (text_content l))"
      using mi by (simp add: build_metadata_def)
    have i: "mi_series_index mi = (case f_series_index f of None \<Rightarrow> None
        | Some i \<Rightarrow> if i \<noteq> 0 then Some i else None)"
      using c ne mi by (simp add: build_metadata_def)
    show ?thesis
      using Some s i c by (auto split: option.splits)
  qed
qed

theorem series_from_first_named_link_witness:
  "mi_series series_record = Some (str_of ''Dune Chronicles'') \<and>
   mi_series_index series_record = Some 2 \<and>
   mi_series unnumbered_record = Some (str_of ''Dune Chronicles'') \<and>
   mi_series_index unnumbered_record = None \<and>
   mi_series_index dune_record = None"
proof -
  have t: "tail numbered_link = Some (str_of '' #2 in the series'')"
    by (simp add: numbered_link_def)
  have s: "strip (text_content numbered_link) = str_of ''Dune Chronicles''"
    by (simp add: numbered_link_def strip_chronicles)
  have nz: "(2::int) \<noteq> 0" by simp
  have 1: "mi_series series_record = Some (strip (text_content numbered_link)) \<and>
      mi_series_index series_record = Some 2"
    by (rule series_from_first_named_link [OF series_extract, THEN conjunct2, THEN conjunct2,
          THEN conjunct2, rule_format,
          OF conjI [OF series_page_link conjI [OF t conjI [OF numbered_tail conjI [OF int_of_2 nz]]]]])
  have u: "(case tail unnumbered_link of None \<Rightarrow> True
      | Some t \<Rightarrow> re_search_digits offline_env (str_of ''#'') t = None)"
    by (simp add: unnumbered_link_def unnumbered_tail)
  have su: "strip (text_content unnumbered_link) = str_of ''Dune Chronicles''"
    by (simp add: unnumbered_link_def strip_chronicles)
  have 2: "mi_series unnumbered_record = Some (strip (text_content unnumbered_link)) \<and>
      mi_series_index unnumbered_record = None"
    by (rule series_from_first_named_link [OF unnumbered_extract, THEN conjunct2,
          THEN conjunct2, THEN conjunct1, rule_format, OF conjI [OF unnumbered_page_link u]])
  have 3: "mi_series_index dune_record = None"
    by (rule series_from_first_named_link [OF dune_extract, THEN conjunct2, THEN conjunct1,
          rule_format, OF dune_page_link])
  show ?thesis using 1 2 3 by (simp only: s su simp_thms)
qed

text \<open>
  C8 as stated fails when the first series link has no text: the name is then the text of
  a later link, not of the first one.
\<close>

theorem series_first_link_counterexample:
  "series_links series_page = [blank_link, numbered_link] \<and>
   text_content blank_link = [] \<and>
   text_content numbered_link = str_of ''Dune Chronicles'' \<and>
   extract_core offline_env series_page dune_url empty_state =
     Inr (Some series_record, dune_state) \<and>
   mi_series series_record = Some (str_of ''Dune Chronicles'')"
  by (simp add: series_extract)
     (simp add: series_page_def blank_link_def numbered_link_def series_record_def)

section \<open>The matcher\<close>

lemma checks_checked: "checks n (checked st) = checks (Suc n) st"
  by (simp add: checks_def checked_def)

lemma checks_0: "checks 0 st = st"
  by (simp add: checks_def)

lemma scan_reject:
  assumes "\<not> abort_is_set e (abort_checks st)" and "\<not> raises doc h"
    and "\<not> accepts e doc tq aq h"
  shows "scan e doc tq aq (h # hs) st = scan e doc tq aq hs (checked st)"
  using assms
  by (auto simp: raises_def accepts_def title_matches_def author_matches_def
      split: sum.splits list.splits option.splits)

lemma scan_accept:
  assumes "\<not> abort_is_set e (abort_checks st)" and "accepts e doc tq aq h"
  shows "scan e doc tq aq (h # hs) st = Inr (Scanned (Some h), checked st)"
  using assms
  by (auto simp: accepts_def title_matches_def author_matches_def
      split: sum.splits list.splits option.splits)

lemma scan_skips:
  assumes "\<forall>k < length pre. \<not> abort_is_set e (abort_checks st + k)"
    and "\<forall>h\<in>set pre. \<not> raises doc h \<and> \<not> accepts e doc tq aq h"
  shows "scan e doc tq aq (pre @ rest) st = scan e doc tq aq rest (checks (length pre) st)"
  using assms
proof (induction pre arbitrary: st)
  case Nil
  then show ?case by (simp add: checks_0)
next
  case (Cons h pre)
  from Cons.prems(1) have a0: "\<not> abort_is_set e (abort_checks st)" by force
  from Cons.prems(1) have a: "\<forall>k < length pre. \<not> abort_is_set e (abort_checks (checked st) + k)"
    by (auto simp: checked_def)
  from Cons.prems(2) have r: "\<not> raises doc h" "\<not> accepts e doc tq aq h"
    and p: "\<forall>h\<in>set pre. \<not> raises doc h \<and> \<not> accepts e doc tq aq h"
    by simp_all
  have "scan e doc tq aq ((h # pre) @ rest) st = scan e doc tq aq (pre @ rest) (checked st)"
    using scan_reject [OF a0 r] by simp
  also have "\<dots> = scan e doc tq aq rest (checks (length pre) (checked st))"
    by (rule Cons.IH [OF a p])
  finally show ?case by (simp add: checks_checked)
qed

lemma scan_first_accepted:
  assumes "\<forall>k \<le> length pre. \<not> abort_is_set e (abort_checks st + k)"
    and "\<forall>h\<in>set pre. \<not> raises doc h \<and> \<not> accepts e doc tq aq h"
    and "accepts e doc tq aq h"
  shows "scan e doc tq aq (pre @ h # post) st =
         Inr (Scanned (Some h), checks (Suc (length pre)) st)"
proof -
  from assms(1) have a: "\<forall>k < length pre. \<not> abort_is_set e (abort_checks st + k)"
    by auto
  from assms(1) have b: "\<not> abort_is_set e (abort_checks (checks (length pre) st))"
    by (simp add: checks_def)
  have "checked (checks (length pre) st) = checks (Suc (length pre)) st"
    by (simp add: checks_def checked_def)
  with scan_skips [OF a assms(2), of "h # post"] scan_accept [OF b assms(3), of post]
  show ?thesis by simp
qed

lemma scan_none_accepted:
  assumes "\<forall>k < length hs. \<not> abort_is_set e (abort_checks st + k)"
    and "\<forall>h\<in>set hs. \<not> raises doc h \<and> \<not> accepts e doc tq aq h"
  shows "scan e doc tq aq hs st = Inr (Scanned None, checks (length hs) st)"
  using scan_skips [OF assms, of "[]"] by simp

lemma select_first_accepted:
  assumes "fromkeys (book_hrefs doc) = first # others"
    and "take 20 (first # others) = pre @ h # post"
    and "h \<noteq> []"
    and "\<forall>k \<le> length pre. \<not> abort_is_set e (abort_checks st + k)"
    and "\<forall>h\<in>set pre. \<not> raises doc h \<and> \<not> accepts e doc tq aq h"
    and "accepts e doc tq aq h"
  shows "select_best_candidate e doc tq aq st =
         Inr (Some (absolute_url h), checks (Suc (length pre)) st)"
proof -
  have "scan e doc tq aq (take 20 (first # others)) st =
        Inr (Scanned (Some h), checks (Suc (length pre)) st)"
    unfolding assms(2) by (rule scan_first_accepted [OF assms(4-6)])
  with assms(1,3) show ?thesis
    by (simp add: select_best_candidate_def split: list.splits)
qed

lemma select_none_accepted:
  assumes "fromkeys (book_hrefs doc) = first # others"
    and "first \<noteq> []"
    and "\<forall>k < length (take 20 (first # others)). \<not> abort_is_set e (abort_checks st + k)"
    and "\<forall>h\<in>set (take 20 (first # others)). \<not> raises doc h \<and> \<not> accepts e doc tq aq h"
  shows "select_best_candidate e doc tq aq st =
         Inr (Some (absolute_url first), checks (length (take 20 (first # others))) st)"
proof -
  have "scan e doc tq aq (take 20 (first # others)) st =
        Inr (Scanned None, checks (length (take 20 (first # others))) st)"
    by (rule scan_none_accepted [OF assms(3,4)])
  with assms(1,2) show ?thesis
    by (simp add: select_best_candidate_def split: list.splits)
qed

lemmas matcher_defs =
  raises_def accepts_def title_matches_def author_matches_def title_match_def
  search_page_def film_link_def novel_link_def

lemma search_page_links:
  "fromkeys (book_hrefs search_page) = [str_of ''/book/1'', str_of ''/book/2'']"
  by (simp add: fromkeys_def search_page_def blank_document_def str_of_def)

lemma film_title: "title_matches offline_env search_page (str_of ''dune'') (str_of ''/book/1'')"
  by (simp add: matcher_defs example_defs str_of_def strip_def py_isspace_def startswith_def)

lemma film_author:
  "\<not> author_matches offline_env search_page (str_of ''frank'') (str_of ''/book/1'')"
  by (simp add: matcher_defs example_defs str_of_def startswith_def)

lemma novel_accepted:
  "accepts offline_env search_page (str_of ''dune'') (str_of ''frank'') (str_of ''/book/2'')"
  by (simp add: matcher_defs example_defs str_of_def strip_def py_isspace_def startswith_def)

lemma no_raise: "\<not> raises search_page h"
  by (simp add: raises_def search_page_def blank_document_def)

lemma never_aborted: "\<not> abort_is_set offline_env k"
  by (simp add: offline_env_def example_env_def)

lemma frank_nonempty: "str_of ''frank'' \<noteq> []"
  by (simp add: str_of_def)

lemma solaris_rejected:
  "\<not> title_matches offline_env search_page (str_of ''solaris'') h"
  by (simp add: matcher_defs example_defs str_of_def strip_def py_isspace_def startswith_def)

text \<open>
  C2, as the code has it: the scan stops at the first candidate (among the first 20,
  while the caller does not abort and the element lookups do not raise) whose link text
  passes the title test and, when there is an author query, whose parent text passes the
  author test; that candidate is the result.  A candidate before it is passed over, also
  one that passes the title test and fails the author test: the scan goes on to the later
  candidates.
\<close>

theorem first_accepted_candidate_wins:
  assumes "fromkeys (book_hrefs doc) = first # others"
    and "take 20 (first # others) = pre @ h # post"
    and "h \<noteq> []"
    and "\<forall>k \<le> length pre. \<not> abort_is_set e (abort_checks st + k)"
    and "\<forall>c\<in>set pre. \<not> raises doc c \<and> \<not> accepts e doc tq aq c"
    and "accepts e doc tq aq h"
  shows "scan e doc tq aq (take 20 (first # others)) st =
           Inr (Scanned (Some h), checks (Suc (length pre)) st) \<and>
         select_best_candidate e doc tq aq st =
           Inr (Some (absolute_url h), checks (Suc (length pre)) st)"
proof
  show "scan e doc tq aq (take 20 (first # others)) st =
      Inr (Scanned (Some h), checks (Suc (length pre)) st)"
    unfolding assms(2) by (rule scan_first_accepted [OF assms(4-6)])
  show "select_best_candidate e doc tq aq st =
      Inr (Some (absolute_url h), checks (Suc (length pre)) st)"
    by (rule select_first_accepted [OF assms])
qed

theorem first_accepted_candidate_wins_witness:
  "select_best_candidate offline_env search_page (str_of ''dune'') (str_of ''frank'') empty_state =
     Inr (Some (absolute_url (str_of ''/book/2'')), checks 2 empty_state)"
proof -
  have t: "take 20 (str_of ''/book/1'' # [str_of ''/book/2'']) =
      [str_of ''/book/1''] @ str_of ''/book/2'' # []"
    by simp
  have n: "str_of ''/book/2'' \<noteq> []"
    by (simp add: str_of_def)
  have a: "\<forall>k \<le> length [str_of ''/book/1'']. \<not> abort_is_set offline_env (abort_checks empty_state + k)"
    by (simp add: never_aborted)
  have r: "\<forall>c\<in>set [str_of ''/book/1''].
      \<not> raises search_page c \<and> \<not> accepts offline_env search_page (str_of ''dune'') (str_of ''frank'') c"
    using film_author frank_nonempty by (simp add: no_raise accepts_def)
  have "select_best_candidate offline_env search_page (str_of ''dune'') (str_of ''frank'') empty_state =
      Inr (Some (absolute_url (str_of ''/book/2'')), checks (Suc (length [str_of ''/book/1''])) empty_state)"
    by (rule first_accepted_candidate_wins [OF search_page_links t n a r novel_accepted,
          THEN conjunct2])
  then show ?thesis by (simp add: numeral_2_eq_2)
qed

text \<open>
  C2 as stated fails: the first candidate passes the title test and fails the author
  test, and the result is the second candidate, which passes both, not the fallback to
  the first.
\<close>

theorem scan_continues_counterexample:
  "fromkeys (book_hrefs search_page) = [str_of ''/book/1'', str_of ''/book/2''] \<and>
   title_matches offline_env search_page (str_of ''dune'') (str_of ''/book/1'') \<and>
   \<not> author_matches offline_env search_page (str_of ''frank'') (str_of ''/book/1'') \<and>
   select_best_candidate offline_env search_page (str_of ''dune'') (str_of ''frank'') empty_state =
     Inr (Some (BASE_URL @ str_of ''/book/2''), checks 2 empty_state) \<and>
   BASE_URL @ str_of ''/book/2'' \<noteq> absolute_url (str_of ''/book/1'')"
proof -
  have t: "take 20 (str_of ''/book/1'' # [str_of ''/book/2'']) =
      [str_of ''/book/1''] @ str_of ''/book/2'' # []"
    by simp
  have n: "str_of ''/book/2'' \<noteq> []"
    by (simp add: str_of_def)
  have a: "\<forall>k \<le> length [str_of ''/book/1'']. \<not> abort_is_set offline_env (abort_checks empty_state + k)"
    by (simp add: never_aborted)
  have r: "\<forall>c\<in>set [str_of ''/book/1''].
      \<not> raises search_page c \<and> \<not> accepts offline_env search_page (str_of ''dune'') (str_of ''frank'') c"
    using film_author frank_nonempty by (simp add: no_raise accepts_def)
  have "select_best_candidate offline_env search_page (str_of ''dune'') (str_of ''frank'') empty_state =
      Inr (Some (absolute_url (str_of ''/book/2'')), checks (Suc (length [str_of ''/book/1''])) empty_state)"
    by (rule select_first_accepted [OF search_page_links t n a r novel_accepted])
  moreover have "absolute_url (str_of ''/book/2'') = BASE_URL @ str_of ''/book/2''"
    by (simp add: absolute_url_def startswith_def str_of_def)
  moreover have "BASE_URL @ str_of ''/book/2'' \<noteq> absolute_url (str_of ''/book/1'')"
    by (simp add: absolute_url_def startswith_def str_of_def)
  ultimately show ?thesis
    using search_page_links film_title film_author by (simp add: numeral_2_eq_2)
qed

text \<open>
  C5: when the candidate set is not empty and none of the candidates scanned (the first
  20) passes the title test together with, for an author query, the author test, the
  result is the first candidate in document order, as an absolute URL.  (The caller does
  not abort during the scan, the element lookups do not raise, and the first href is not
  empty, as an href that contains \<open>/book/\<close> never is.)
\<close>

theorem fallback_to_first_candidate:
  assumes "fromkeys (book_hrefs doc) = first # others"
    and "first \<noteq> []"
    and "\<forall>k < length (take 20 (first # others)). \<not> abort_is_set e (abort_checks st + k)"
    and "\<forall>h\<in>set (take 20 (first # others)). \<not> raises doc h \<and> \<not> accepts e doc tq aq h"
  shows "select_best_candidate e doc tq aq st =
         Inr (Some (absolute_url first), checks (length (take 20 (first # others))) st)"
  by (rule select_none_accepted [OF assms])

theorem fallback_to_first_candidate_witness:
  "select_best_candidate offline_env search_page (str_of ''solaris'') (str_of ''lem'') empty_state =
     Inr (Some (absolute_url (str_of ''/book/1'')), checks 2 empty_state)"
proof -
  have n: "str_of ''/book/1'' \<noteq> []"
    by (simp add: str_of_def)
  have a: "\<forall>k < length (take 20 (str_of ''/book/1'' # [str_of ''/book/2''])).
      \<not> abort_is_set offline_env (abort_checks empty_state + k)"
    by (simp add: never_aborted)
  have r: "\<forall>h\<in>set (take 20 (str_of ''/book/1'' # [str_of ''/book/2''])).
      \<not> raises search_page h \<and>
      \<not> accepts offline_env search_page (str_of ''solaris'') (str_of ''lem'') h"
    by (simp add: no_raise accepts_def solaris_rejected)
  have "select_best_candidate offline_env search_page (str_of ''solaris'') (str_of ''lem'') empty_state =
      Inr (Some (absolute_url (str_of ''/book/1'')),
           checks (length (take 20 (str_of ''/book/1'' # [str_of ''/book/2'']))) empty_state)"
    by (rule fallback_to_first_candidate [OF search_page_links n a r])
  then show ?thesis by (simp add: numeral_2_eq_2)
qed

section \<open>Exceptions that leave \<^verbatim>\<open>identify\<close>\<close>

text \<open>
  An exception of \<^verbatim>\<open>json.loads\<close> other than \<^verbatim>\<open>JSONDecodeError\<close> is not caught
  either: it leaves the extraction, and a failure to decode is passed over.
\<close>

lemma json_loads_error_escapes:
  assumes "ld_scripts doc = Inl err # scripts" and "err \<noteq> JSONDecodeError"
  shows "extract_core e doc url st = Inl err"
  using assms
  by (cases err) (simp_all add: extract_core_def resolve_fields_def extract_json_ld_def)

lemma json_decode_error_skipped:
  assumes "ld_scripts doc = Inl JSONDecodeError # scripts"
  shows "extract_json_ld doc = extract_json_ld_loop scripts"
  using assms by (simp add: extract_json_ld_def)

text \<open>
  C6 does not hold of the code: the conversion of the rating catches
  \<^verbatim>\<open>ValueError\<close> and \<^verbatim>\<open>TypeError\<close> only.  A rating value that is an integer too
  large for a float raises \<^verbatim>\<open>OverflowError\<close>, which leaves \<open>parse_book_page\<close> and
  \<open>identify\<close>.
\<close>

theorem identify_overflow_escapes:
  "identify overflow_env None None (Some [str_of ''livelib'' \<mapsto> str_of ''1'']) empty_state =
     Inl OverflowError"
  by (simp add: identify_def livelib_of_def identify_by_id_def parse_book_page_def
      fetch_page_def extract_core_def resolve_fields_def json_ld_fields_def extract_json_ld_def
      overflow_env_def overflow_page_def example_env_def blank_document_def str_of_def
      dict_get_def dict_get_default_def ld_rating_def float_of_int_def)

end
